theory Spec2Isabelle
  imports Main "HOL-Library.Sublist"
begin

section \<open>The graph tool of the Desmos MCP server\<close>

text \<open>
  The server registers one tool, \<open>graph\<close> (\<open>src/index.ts\<close>). Its handler builds an HTML
  page from a template literal, hands the page to \<open>createUIResource\<close> of \<open>@mcp-ui/server\<close>
  and returns the resource as the only content item; a \<open>catch\<close> block builds an error page
  instead. The theory embeds the handler as HOL functions over strings.

  Strings are \<^typ>\<open>string\<close>, that is lists of 8-bit characters: a JavaScript string is read
  as its UTF-8 bytes. The two patterns the handler searches for (\<open>y=\<close> and \<open>=\<close>) are ASCII,
  and UTF-8 is self-synchronising, so searching and replacing them in the bytes of a
  well-formed string is searching and replacing them in its code units.
\<close>

subsection \<open>String primitives of the language\<close>

text \<open>\<open>s.includes(pat)\<close>: does \<open>pat\<close> occur in \<open>s\<close> at some position.\<close>

fun includes_str :: "string \<Rightarrow> string \<Rightarrow> bool" where
  "includes_str [] pat = (pat = [])"
| "includes_str (c # cs) pat = (prefix pat (c # cs) \<or> includes_str cs pat)"

text \<open>
  \<open>s.replace(pat, rep)\<close> for a string pattern: the first occurrence of \<open>pat\<close> is replaced,
  the rest of \<open>s\<close> is kept, and \<open>s\<close> is returned as it is when \<open>pat\<close> does not occur.
  (The handler's replacement is the empty string, so the \<open>$\<close> patterns that JavaScript
  expands in a replacement string never arise.)
\<close>

fun replace_str :: "string \<Rightarrow> string \<Rightarrow> string \<Rightarrow> string" where
  "replace_str [] pat rep = (if pat = [] then rep else [])"
| "replace_str (c # cs) pat rep =
     (if prefix pat (c # cs) then rep @ drop (length pat) (c # cs)
      else c # replace_str cs pat rep)"

text \<open>\<open>xs.join(sep)\<close> on an array of strings.\<close>

fun join_str :: "string \<Rightarrow> string list \<Rightarrow> string" where
  "join_str sep [] = []"
| "join_str sep [x] = x"
| "join_str sep (x # y # ys) = x @ sep @ join_str sep (y # ys)"

text \<open>\<open>xs.map((x, index) => f(x, index))\<close>: the callback receives the element and its index.\<close>

fun map_index :: "('a \<Rightarrow> nat \<Rightarrow> 'b) \<Rightarrow> nat \<Rightarrow> 'a list \<Rightarrow> 'b list" where
  "map_index f i [] = []"
| "map_index f i (x # xs) = f x i # map_index f (Suc i) xs"

text \<open>
  Template interpolation \<open>${v}\<close> converts \<open>v\<close> to a string. A boolean becomes \<open>true\<close> or
  \<open>false\<close>; a non-negative integer below \<open>10^21\<close> (an array index, a clock reading in
  milliseconds) becomes its decimal digits.
\<close>

definition string_of_bool :: "bool \<Rightarrow> string" where
  "string_of_bool b = (if b then ''true'' else ''false'')"

definition digit_char :: "nat \<Rightarrow> char" where
  "digit_char d = ''0123456789'' ! d"

fun string_of_nat :: "nat \<Rightarrow> string" where
  "string_of_nat n =
     (if n < 10 then [digit_char n]
      else string_of_nat (n div 10) @ [digit_char (n mod 10)])"

declare string_of_nat.simps [simp del]

text \<open>
  The viewport bounds are JavaScript numbers (IEEE doubles). Their conversion to text is
  not modelled: the type of numbers is a type variable \<open>'n\<close> and the conversion is a
  parameter \<open>numberToString\<close> of every function that interpolates a bound. For bounds that
  are integers, the conversion is \<open>string_of_int\<close>.
\<close>

definition string_of_int :: "int \<Rightarrow> string" where
  "string_of_int i =
     (if i < 0 then ''-'' @ string_of_nat (nat (- i)) else string_of_nat (nat i))"

subsection \<open>The static text of the page template\<close>

text \<open>
  The template literal of the success path, cut at its interpolations. Each constant is
  the text between two interpolations, line by line as in the source.
\<close>

definition tpl_head :: string where
  \<open>tpl_head = join_str [CHR 0x0A]
    [''<!DOCTYPE html>'',
     ''<html lang="en">'',
     ''<head>'',
     ''    <meta charset="UTF-8">'',
     ''    <meta name="viewport" content="width=device-width, initial-scale=1.0">'',
     ''    <title>'']\<close>

definition tpl_style :: string where
  \<open>tpl_style = join_str [CHR 0x0A]
    [''</title>'',
     ''    <style>'',
     ''        body {'',
     ''            margin: 0;'',
     ''            padding: 0;'',
     ''            background: white;'',
     ''            width: 100%;'',
     ''            height: 100vh;'',
     ''            overflow: hidden;'',
     ''        }'',
     ''        #calculator {'',
     ''            width: 100%;'',
     ''            height: 100vh;'',
     ''        }'',
     ''    </style>'',
     ''</head>'',
     ''<body>'',
     ''    <div id="calculator"></div>'',
     ''    '',
     ''    <script src="https://www.desmos.com/api/v1.11/calculator.js?apiKey=dcb31709b452b1cf9dc26972add0fda6"></script>'',
     ''    '',
     ''    <script>'',
     ''        var calculator = Desmos.GraphingCalculator(document.getElementById('calculator'), {'',
     ''            keypad: '']\<close>

definition tpl_graphpaper :: string where
  \<open>tpl_graphpaper = join_str [CHR 0x0A]
    ['','',
     ''            graphpaper: '']\<close>

definition tpl_expressions :: string where
  \<open>tpl_expressions = join_str [CHR 0x0A]
    ['','',
     ''            expressions: '']\<close>

definition tpl_options :: string where
  \<open>tpl_options = join_str [CHR 0x0A]
    ['','',
     ''            settingsMenu: true,'',
     ''            zoomButtons: true,'',
     ''            pointsOfInterest: true,'',
     ''            trace: true,'',
     ''            border: false,'',
     ''            lockViewport: false,'',
     ''            expressionsCollapsed: false,'',
     ''            capExpressionSize: false,'',
     ''            authorFeatures: false,'',
     ''            images: true,'',
     ''            folders: true,'',
     ''            notes: true,'',
     ''            sliders: true,'',
     ''            actions: 'auto','',
     ''            substitutions: true,'',
     ''            links: true,'',
     ''            qwertyKeyboard: true,'',
     ''            distributions: true,'',
     ''            restrictedFunctions: false,'',
     ''            forceEnableGeometryFunctions: false,'',
     ''            pasteGraphLink: false,'',
     ''            pasteTableData: true,'',
     ''            clearIntoDegreeMode: false'',
     ''        });'',
     '''',
     ''        '']\<close>

definition tpl_tail :: string where
  \<open>tpl_tail = join_str [CHR 0x0A]
    ['''',
     '''',
     ''        calculator.setExpression({ id: 'fit', latex: 'fit()' });'',
     ''        setTimeout(() => calculator.removeExpression({ id: 'fit' }), 1000);'',
     ''    </script>'',
     ''</body>'',
     ''</html>'']\<close>

subsection \<open>The interpolated parts\<close>

text \<open>
  The bounds call is emitted when all four bounds are not \<open>undefined\<close>; the conditional
  expression yields the empty string otherwise. An absent parameter is \<^const>\<open>None\<close>.
\<close>

definition boundsSection ::
  "('n \<Rightarrow> string) \<Rightarrow> 'n option \<Rightarrow> 'n option \<Rightarrow> 'n option \<Rightarrow> 'n option \<Rightarrow> string" where
  \<open>boundsSection numberToString xMin xMax yMin yMax =
     (if xMin \<noteq> None \<and> xMax \<noteq> None \<and> yMin \<noteq> None \<and> yMax \<noteq> None
      then join_str [CHR 0x0A]
            ['''',
             ''        calculator.setMathBounds({'',
             ''            left: '' @ numberToString (the xMin) @ '','',
             ''            right: '' @ numberToString (the xMax) @ '','',
             ''            bottom: '' @ numberToString (the yMin) @ '','',
             ''            top: '' @ numberToString (the yMax),
             ''        });'',
             ''        '']
      else [])\<close>

text \<open>The callback of \<open>functions.map\<close>: normalise the function string, then build the statement.\<close>

definition normalizeExpression :: "string \<Rightarrow> string" where
  "normalizeExpression func =
     (if includes_str func ''y='' then replace_str func ''y='' ''''
      else if includes_str func ''='' then func
      else func)"

definition setExpressionStatement :: "string \<Rightarrow> nat \<Rightarrow> string" where
  "setExpressionStatement func index =
     ''calculator.setExpression({ id: 'function'' @ string_of_nat index
       @ ''', latex: '' @ [CHR 0x27] @ normalizeExpression func @ ''' });''"

definition functionStatements :: "string list \<Rightarrow> string list" where
  "functionStatements functions = map_index setExpressionStatement 0 functions"

definition functionsSection :: "string list \<Rightarrow> string" where
  "functionsSection functions =
     join_str ([CHR 0x0A] @ ''        '') (functionStatements functions)"

text \<open>The template literal \<open>htmlContent\<close>, with the parameters as the handler destructures them.\<close>

definition htmlContent ::
  "('n \<Rightarrow> string) \<Rightarrow> string list \<Rightarrow> string \<Rightarrow> 'n option \<Rightarrow> 'n option \<Rightarrow> 'n option \<Rightarrow> 'n option
     \<Rightarrow> bool \<Rightarrow> bool \<Rightarrow> bool \<Rightarrow> string" where
  "htmlContent numberToString functions title xMin xMax yMin yMax showGrid showKeypad showExpressions =
     tpl_head @ title @ tpl_style @ string_of_bool showKeypad
       @ tpl_graphpaper @ string_of_bool showGrid
       @ tpl_expressions @ string_of_bool showExpressions
       @ tpl_options @ boundsSection numberToString xMin xMax yMin yMax
       @ [CHR 0x0A, CHR 0x0A] @ ''        '' @ functionsSection functions
       @ tpl_tail"

subsection \<open>The error page\<close>

definition err_head :: string where
  \<open>err_head = join_str [CHR 0x0A]
    ['''',
     ''<!DOCTYPE html>'',
     ''<html lang="en">'',
     ''<head>'',
     ''    <meta charset="UTF-8">'',
     ''    <meta name="viewport" content="width=device-width, initial-scale=1.0">'',
     ''    <title>Graph Creation Error</title>'',
     ''    <style>'',
     ''        body {'',
     ''            font-family: -apple-system, BlinkMacSystemFont, 'Segoe UI', Roboto, sans-serif;'',
     ''            margin: 0;'',
     ''            padding: 20px;'',
     ''            background-color: #f6f8fa;'',
     ''            display: flex;'',
     ''            justify-content: center;'',
     ''            align-items: center;'',
     ''            min-height: 100vh;'',
     ''        }'',
     ''        .error-container {'',
     ''            background: white;'',
     ''            border-radius: 12px;'',
     ''            padding: 40px;'',
     ''            box-shadow: 0 4px 16px rgba(0,0,0,0.1);'',
     ''            text-align: center;'',
     ''            max-width: 500px;'',
     ''        }'',
     ''        .error-icon {'',
     ''            font-size: 48px;'',
     ''            margin-bottom: 20px;'',
     ''        }'',
     ''        .error-title {'',
     ''            color: #dc3545;'',
     ''            font-size: 24px;'',
     ''            margin-bottom: 16px;'',
     ''        }'',
     ''        .error-message {'',
     ''            color: #6c757d;'',
     ''            font-size: 16px;'',
     ''            line-height: 1.5;'',
     ''        }'',
     ''    </style>'',
     ''</head>'',
     ''<body>'',
     ''    <div class="error-container">'',
     ''        <div class="error-icon">'' @ [CHR 0xE2, CHR 0x9A, CHR 0xA0, CHR 0xEF, CHR 0xB8, CHR 0x8F] @ ''</div>'',
     ''        <div class="error-title">Graph Creation Error</div>'',
     ''        <div class="error-message">'',
     ''            Failed to create the function graph<br>'',
     ''            '']\<close>

definition err_tail :: string where
  \<open>err_tail = join_str [CHR 0x0A]
    ['''',
     ''        </div>'',
     ''    </div>'',
     ''</body>'',
     ''</html>'',
     ''            '']\<close>

text \<open>
  What a \<open>catch\<close> block can receive: an \<open>Error\<close> object with its message, or any other
  thrown value. The error page interpolates
  \<open>error instanceof Error ? error.message : "Unknown error occurred"\<close>.
\<close>

datatype thrown = ErrorObject (message: string) | OtherValue

definition errorText :: "thrown \<Rightarrow> string" where
  "errorText error =
     (case error of ErrorObject msg \<Rightarrow> msg | OtherValue \<Rightarrow> ''Unknown error occurred'')"

definition errorHtml :: "thrown \<Rightarrow> string" where
  "errorHtml error = err_head @ errorText error @ err_tail"

subsection \<open>The handler\<close>

text \<open>
  The arguments of the tool as the handler receives them; an omitted (\<open>undefined\<close>)
  argument is \<^const>\<open>None\<close>. A destructuring default \<open>x = d\<close> replaces \<open>undefined\<close> by \<open>d\<close>.
\<close>

record 'n graph_args =
  "functions" :: "string list"
  title :: "string option"
  xMin :: "'n option"
  xMax :: "'n option"
  yMin :: "'n option"
  yMax :: "'n option"
  showGrid :: "bool option"
  showKeypad :: "bool option"
  showExpressions :: "bool option"

definition orDefault :: "'a option \<Rightarrow> 'a \<Rightarrow> 'a" where
  "orDefault v d = (case v of None \<Rightarrow> d | Some x \<Rightarrow> x)"

definition graphDocument :: "('n \<Rightarrow> string) \<Rightarrow> 'n graph_args \<Rightarrow> string" where
  "graphDocument numberToString args =
     htmlContent numberToString (functions args) (orDefault (title args) ''Function Graph'')
       (xMin args) (xMax args) (yMin args) (yMax args)
       (orDefault (showGrid args) True) (orDefault (showKeypad args) True)
       (orDefault (showExpressions args) True)"

text \<open>
  The object passed to \<open>createUIResource\<close>. The field \<open>content_type\<close> is the \<open>type\<close> of the
  source's nested \<open>content\<close> object.
\<close>

record html_content =
  content_type :: string
  htmlString :: string

record resource_options =
  uri :: string
  resource_content :: html_content
  encoding :: string

definition graphResourceOptions :: "nat \<Rightarrow> string \<Rightarrow> resource_options" where
  "graphResourceOptions now html =
     \<lparr>uri = ''ui://desmos-graph/'' @ string_of_nat now,
      resource_content = \<lparr>content_type = ''rawHtml'', htmlString = html\<rparr>,
      encoding = ''blob''\<rparr>"

definition errorResourceOptions :: "thrown \<Rightarrow> resource_options" where
  "errorResourceOptions error =
     \<lparr>uri = ''ui://error-component/desmos-graph'',
      resource_content = \<lparr>content_type = ''rawHtml'', htmlString = errorHtml error\<rparr>,
      encoding = ''blob''\<rparr>"

text \<open>
  The handler. \<open>createUIResource\<close> belongs to \<open>@mcp-ui/server\<close> and is a parameter: it
  returns a resource or throws. \<open>now\<close> is the reading of \<open>Date.now()\<close>, milliseconds since
  the epoch. Nothing else in the
  \<open>try\<close> block can throw on arguments of the declared types. The \<open>catch\<close> block calls
  \<open>createUIResource\<close> again, outside any \<open>try\<close>: what it throws there leaves the handler.
  The result is \<^const>\<open>Inr\<close> of the response, or \<^const>\<open>Inl\<close> of the value thrown to the caller.
\<close>

record 'r tool_response =
  content :: "'r list"

definition graph_handler ::
  "(resource_options \<Rightarrow> thrown + 'r) \<Rightarrow> nat \<Rightarrow> ('n \<Rightarrow> string) \<Rightarrow> 'n graph_args
     \<Rightarrow> thrown + 'r tool_response" where
  "graph_handler createUIResource now numberToString args =
     (case createUIResource (graphResourceOptions now (graphDocument numberToString args)) of
        Inr uiResource \<Rightarrow> Inr \<lparr>content = [uiResource]\<rparr>
      | Inl error \<Rightarrow>
          (case createUIResource (errorResourceOptions error) of
             Inr errorUiResource \<Rightarrow> Inr \<lparr>content = [errorUiResource]\<rparr>
           | Inl error' \<Rightarrow> Inl error'))"

subsection \<open>Measuring a document\<close>

text \<open>
  The number of positions of a text at which a pattern occurs, and the texts a request
  contributes to the page by interpolation: the title, the normalised expressions and,
  when the bounds call is emitted, the four converted bounds.
\<close>

fun occurrences :: "string \<Rightarrow> string \<Rightarrow> nat" where
  "occurrences pat [] = (if pat = [] then 1 else 0)"
| "occurrences pat (c # cs) = (if prefix pat (c # cs) then 1 else 0) + occurrences pat cs"

definition allBounds :: "'n graph_args \<Rightarrow> bool" where
  "allBounds args \<longleftrightarrow> xMin args \<noteq> None \<and> xMax args \<noteq> None \<and> yMin args \<noteq> None \<and> yMax args \<noteq> None"

definition interpolatedTexts :: "('n \<Rightarrow> string) \<Rightarrow> 'n graph_args \<Rightarrow> string list" where
  "interpolatedTexts numberToString args =
     orDefault (title args) ''Function Graph'' # map normalizeExpression (functions args)
       @ (if allBounds args
          then map numberToString [the (xMin args), the (xMax args), the (yMin args), the (yMax args)]
          else [])"

text \<open>
  The characters that stand next to an interpolation in the template (and the digits of a
  statement's index). A pattern without them cannot lie across the border of an
  interpolated text, so its occurrences in the page are those in the static text plus
  those inside the interpolated texts.
\<close>

definition delimiters :: "char set" where
  "delimiters = set (''<>, '0123456789'' @ [CHR 0x0A])"

definition plainWord :: "string \<Rightarrow> bool" where
  "plainWord pat \<longleftrightarrow> pat \<noteq> [] \<and> set pat \<inter> delimiters = {}"

text \<open>The occurrences of a pattern in the static text of the page, of one statement and of the bounds call.\<close>

definition templateCount :: "string \<Rightarrow> nat" where
  "templateCount pat =
     occurrences pat tpl_head + occurrences pat tpl_style + occurrences pat tpl_graphpaper
     + occurrences pat tpl_expressions + occurrences pat tpl_options + occurrences pat tpl_tail"

definition statementCount :: "string \<Rightarrow> nat" where
  "statementCount pat =
     occurrences pat ''calculator.setExpression({ id: 'function''
     + occurrences pat (''', latex: '' @ [CHR 0x27]) + occurrences pat ''' });''"

definition boundsCount :: "string \<Rightarrow> nat" where
  "boundsCount pat =
     occurrences pat ''        calculator.setMathBounds({''
     + occurrences pat ''            left: '' + occurrences pat ''            right: ''
     + occurrences pat ''            bottom: '' + occurrences pat ''            top: ''
     + occurrences pat ''        });''"

definition flagCount :: "string \<Rightarrow> 'n graph_args \<Rightarrow> nat" where
  "flagCount pat args =
     occurrences pat (string_of_bool (orDefault (showKeypad args) True))
     + occurrences pat (string_of_bool (orDefault (showGrid args) True))
     + occurrences pat (string_of_bool (orDefault (showExpressions args) True))"

subsection \<open>Example requests\<close>

text \<open>
  Two requests with integer bounds, and requests whose function string closes the string
  literal of its statement and goes on with statements of its own. All are valid for the
  tool's schema (one to ten strings).
\<close>

definition waveRequest :: "int graph_args" where
  "waveRequest =
     \<lparr>functions = [''y=sin(x)''], title = Some ''Wave'',
      xMin = None, xMax = None, yMin = None, yMax = None,
      showGrid = None, showKeypad = None, showExpressions = None\<rparr>"

definition parabolaRequest :: "int graph_args" where
  "parabolaRequest =
     \<lparr>functions = [''y=x'', ''y=x^2''], title = None,
      xMin = Some (- 5), xMax = Some 5, yMin = Some (- 5), yMax = Some 5,
      showGrid = None, showKeypad = None, showExpressions = None\<rparr>"

definition secondStatementRequest :: "int graph_args" where
  "secondStatementRequest =
     \<lparr>functions = [''x' }); calculator.setExpression({ id: 'function0', latex: 'x^2''], title = None,
      xMin = None, xMax = None, yMin = None, yMax = None,
      showGrid = None, showKeypad = None, showExpressions = None\<rparr>"

definition ownBoundsRequest :: "int graph_args" where
  "ownBoundsRequest =
     \<lparr>functions = [''x' }); calculator.setMathBounds({ left: 0, right: 1, bottom: 0, top: 1 }); calculator.setExpression({ id: 'g', latex: 'x''],
      title = None,
      xMin = None, xMax = None, yMin = None, yMax = None,
      showGrid = None, showKeypad = None, showExpressions = None\<rparr>"

definition secondRemovalRequest :: "int graph_args" where
  "secondRemovalRequest =
     \<lparr>functions = [''x' }); setTimeout(() => calculator.removeExpression({ id: 'fit' }), 5); calculator.setExpression({ id: 'g', latex: 'x''],
      title = None,
      xMin = None, xMax = None, yMin = None, yMax = None,
      showGrid = None, showKeypad = None, showExpressions = None\<rparr>"

definition threeBoundsRequest :: "int graph_args" where
  "threeBoundsRequest =
     \<lparr>functions = [''y=x''], title = None,
      xMin = Some 1, xMax = None, yMin = Some 2, yMax = Some 3,
      showGrid = None, showKeypad = None, showExpressions = None\<rparr>"

definition quoteRequest :: "int graph_args" where
  "quoteRequest =
     \<lparr>functions = [''x'</script>''], title = None,
      xMin = None, xMax = None, yMin = None, yMax = None,
      showGrid = None, showKeypad = None, showExpressions = None\<rparr>"

text \<open>
  Three behaviours of the collaborator \<open>createUIResource\<close>: one that wraps every page (the
  resource is the options object itself), one that fails on the graph page and wraps the
  error page, and one that fails on every page.
\<close>

definition wrapsEveryPage :: "resource_options \<Rightarrow> thrown + resource_options" where
  "wrapsEveryPage options = Inr options"

definition wrapsErrorPageOnly :: "resource_options \<Rightarrow> thrown + resource_options" where
  "wrapsErrorPageOnly options =
     (if uri options = ''ui://error-component/desmos-graph'' then Inr options
      else Inl (ErrorObject ''cannot encode''))"

definition wrapsNoPage :: "resource_options \<Rightarrow> thrown + resource_options" where
  "wrapsNoPage options = Inl (ErrorObject ''cannot encode'')"

text \<open>A collaborator that throws a value that is not an \<open>Error\<close>, on every page.\<close>

definition rejectsEveryPage :: "resource_options \<Rightarrow> thrown + resource_options" where
  "rejectsEveryPage options = Inl OtherValue"

section \<open>Properties\<close>

subsection \<open>Decimal digits\<close>

lemma digit_char_digit: "d < 10 \<Longrightarrow> digit_char d \<in> set ''0123456789''"
  unfolding digit_char_def by (rule nth_mem) simp

lemma digit_char_inj: "d < 10 \<Longrightarrow> d' < 10 \<Longrightarrow> digit_char d = digit_char d' \<Longrightarrow> d = d'"
  unfolding digit_char_def by (subst (asm) nth_eq_iff_index_eq) simp_all

lemma string_of_nat_nonempty: "string_of_nat n \<noteq> []"
  by (subst string_of_nat.simps) simp

lemma string_of_nat_digits: "set (string_of_nat n) \<subseteq> set ''0123456789''"
proof (induction n rule: string_of_nat.induct)
  case (1 n)
  show ?case
  proof (cases "n < 10")
    case True
    then show ?thesis
      using digit_char_digit [of n] by (subst string_of_nat.simps) simp
  next
    case False
    have "n mod 10 < 10" by simp
    then have "digit_char (n mod 10) \<in> set ''0123456789''" by (rule digit_char_digit)
    with False 1 show ?thesis
      by (subst string_of_nat.simps) simp
  qed
qed

lemma string_of_nat_inj: "string_of_nat m = string_of_nat n \<Longrightarrow> m = n"
proof (induction m arbitrary: n rule: string_of_nat.induct)
  case (1 m)
  have sm: "string_of_nat m = (if m < 10 then [digit_char m] else string_of_nat (m div 10) @ [digit_char (m mod 10)])"
    by (rule string_of_nat.simps)
  have sn: "string_of_nat n = (if n < 10 then [digit_char n] else string_of_nat (n div 10) @ [digit_char (n mod 10)])"
    by (rule string_of_nat.simps)
  show ?case
  proof (cases "m < 10")
    case m: True
    show ?thesis
    proof (cases "n < 10")
      case True
      with m 1(2) sm sn show ?thesis by (auto dest: digit_char_inj)
    next
      case False
      with m 1(2) sm sn have "string_of_nat (n div 10) = []" by simp
      then show ?thesis by (simp add: string_of_nat_nonempty)
    qed
  next
    case m: False
    show ?thesis
    proof (cases "n < 10")
      case True
      with m 1(2) sm sn have "string_of_nat (m div 10) = []" by simp
      then show ?thesis by (simp add: string_of_nat_nonempty)
    next
      case False
      with m 1(2) sm sn have eq: "string_of_nat (m div 10) = string_of_nat (n div 10)"
        and d: "digit_char (m mod 10) = digit_char (n mod 10)" by simp_all
      from eq m have "m div 10 = n div 10" by (rule 1(1) [rotated])
      moreover from d have "m mod 10 = n mod 10" by (rule digit_char_inj [rotated 2]) simp_all
      ultimately show ?thesis by (metis div_mult_mod_eq)
    qed
  qed
qed

subsection \<open>Searching and counting\<close>

lemma includes_str_sublist: "includes_str s pat \<longleftrightarrow> sublist pat s"
  by (induction s) (simp_all add: sublist_Cons_right)

lemma occurrences_zero_iff: "occurrences pat s = 0 \<longleftrightarrow> \<not> sublist pat s"
  by (induction s) (auto simp: sublist_Cons_right)

lemma prefix_append_sep:
  assumes "c \<notin> set pat"
  shows "prefix pat (a @ c # b) \<longleftrightarrow> prefix pat a"
proof
  assume "prefix pat (a @ c # b)"
  then consider "prefix pat a" | us where "pat = a @ us" "prefix us (c # b)"
    by (auto simp: prefix_append)
  then show "prefix pat a"
  proof cases
    case 2
    with assms have "us = []" by (cases us) auto
    with 2 show ?thesis by simp
  qed
next
  assume "prefix pat a"
  then show "prefix pat (a @ c # b)" by (rule prefix_prefix)
qed

lemma occurrences_sep:
  assumes "pat \<noteq> []" and "c \<notin> set pat"
  shows "occurrences pat (a @ c # b) = occurrences pat a + occurrences pat b"
proof (induction a)
  case Nil
  from assms have "\<not> prefix pat (c # b)" by (cases pat) auto
  with assms show ?case by simp
next
  case (Cons x a)
  have "prefix pat (x # a @ c # b) \<longleftrightarrow> prefix pat (x # a)"
    using prefix_append_sep [OF assms(2), of "x # a" b] by simp
  with Cons show ?case by simp
qed

lemma occurrences_append_last:
  assumes "pat \<noteq> []" and "a \<noteq> []" and "last a \<notin> set pat"
  shows "occurrences pat (a @ b) = occurrences pat a + occurrences pat b"
proof -
  from assms(2) have a: "a = butlast a @ [last a]" by simp
  have "occurrences pat (butlast a @ last a # b) = occurrences pat (butlast a) + occurrences pat b"
    by (rule occurrences_sep [OF assms(1,3)])
  moreover have "occurrences pat (butlast a @ last a # []) = occurrences pat (butlast a) + occurrences pat []"
    by (rule occurrences_sep [OF assms(1,3)])
  moreover have "butlast a @ last a # b = a @ b" using a by (metis append.assoc append_Cons append_Nil)
  ultimately show ?thesis using a assms(1) by simp
qed

lemma occurrences_append_hd:
  assumes "pat \<noteq> []" and "b \<noteq> []" and "hd b \<notin> set pat"
  shows "occurrences pat (a @ b) = occurrences pat a + occurrences pat b"
proof -
  from assms(2) have b: "b = hd b # tl b" by simp
  have "occurrences pat (a @ hd b # tl b) = occurrences pat a + occurrences pat (tl b)"
    by (rule occurrences_sep [OF assms(1,3)])
  moreover have "occurrences pat ([] @ hd b # tl b) = occurrences pat [] + occurrences pat (tl b)"
    by (rule occurrences_sep [OF assms(1,3)])
  ultimately show ?thesis using b assms(1) by simp
qed

lemma occurrences_disjoint:
  assumes "pat \<noteq> []" and "set pat \<inter> set s = {}"
  shows "occurrences pat s = 0"
proof -
  have "\<not> sublist pat s"
  proof
    assume "sublist pat s"
    then have "set pat \<subseteq> set s" by (rule set_mono_sublist)
    with assms show False by (cases pat) auto
  qed
  then show ?thesis by (simp add: occurrences_zero_iff)
qed

lemma occurrences_join:
  assumes "pat \<noteq> []" and "sep \<noteq> []" and "set pat \<inter> set sep = {}"
  shows "occurrences pat (join_str sep ls) = sum_list (map (occurrences pat) ls)"
  using assms
proof (induction sep ls rule: join_str.induct)
  case (1 sep) then show ?case by simp
next
  case (2 sep x) then show ?case by simp
next
  case (3 sep x y ys)
  from 3(3,4) have hd: "hd (sep @ join_str sep (y # ys)) \<notin> set pat" and lst: "last sep \<notin> set pat"
    by (auto simp: disjoint_iff)
  have "occurrences pat (x @ sep @ join_str sep (y # ys)) = occurrences pat x + occurrences pat (sep @ join_str sep (y # ys))"
    using 3(2,3) hd by (intro occurrences_append_hd) auto
  also have "occurrences pat (sep @ join_str sep (y # ys)) = occurrences pat sep + occurrences pat (join_str sep (y # ys))"
    using 3(2,3) lst by (intro occurrences_append_last) auto
  also have "occurrences pat sep = 0" using 3(2,4) by (rule occurrences_disjoint)
  finally show ?case using 3 by simp
qed

text \<open>Rules that evaluate a count on a literal without looking at a position twice.\<close>

lemma occurrences_Cons_Cons:
  "occurrences (p # ps) (c # cs) =
     (if p = c then (if prefix ps cs then Suc (occurrences (p # ps) cs) else occurrences (p # ps) cs)
      else occurrences (p # ps) cs)"
  by simp

lemma occurrences_Cons_Nil: "occurrences (p # ps) [] = 0"
  by simp

lemma prefix_Cons_Cons: "prefix (p # ps) (c # cs) = (if p = c then prefix ps cs else False)"
  by simp

lemmas count_literal = occurrences_Cons_Cons occurrences_Cons_Nil prefix_Cons_Cons Nil_prefix prefix_Nil
  char.inject simp_thms if_True if_False list.map sum_list.Nil sum_list.Cons
  add_0_left add_0_right add_Suc add_Suc_right list.distinct

subsection \<open>Occurrences of a plain word in the page\<close>

lemma plainWord_delims:
  assumes "plainWord pat"
  shows "pat \<noteq> []" "CHR ''<'' \<notin> set pat" "CHR ''>'' \<notin> set pat" "CHR '','' \<notin> set pat"
    "CHR '' '' \<notin> set pat" "CHR 0x27 \<notin> set pat" "CHR 0x0A \<notin> set pat"
    "set pat \<inter> set ''0123456789'' = {}"
  using assms unfolding plainWord_def delimiters_def by auto

lemma occurrences_string_of_nat: "plainWord pat \<Longrightarrow> occurrences pat (string_of_nat n) = 0"
  using string_of_nat_digits [of n] plainWord_delims(1,8) [of pat]
  by (intro occurrences_disjoint) blast+

lemma occurrences_setExpressionStatement:
  assumes "plainWord pat"
  shows "occurrences pat (setExpressionStatement func index) =
           occurrences pat ''calculator.setExpression({ id: 'function''
           + occurrences pat (''', latex: '' @ [CHR 0x27])
           + occurrences pat ''' });''
           + occurrences pat (normalizeExpression func)"
proof -
  note d = plainWord_delims [OF assms]
  let ?idx = "string_of_nat index"
  let ?e = "normalizeExpression func"
  have idx: "?idx \<noteq> []" by (rule string_of_nat_nonempty)
  have "hd ?idx \<in> set ?idx" using idx by simp
  with string_of_nat_digits [of index] d(8) have hd_idx: "hd ?idx \<notin> set pat" by blast
  have "last ?idx \<in> set ?idx" using idx by simp
  with string_of_nat_digits [of index] d(8) have last_idx: "last ?idx \<notin> set pat" by blast
  have "occurrences pat (setExpressionStatement func index) =
      occurrences pat (''calculator.setExpression({ id: 'function''
        @ (?idx @ ((''', latex: '' @ [CHR 0x27]) @ (?e @ ''' });''))))"
    by (simp only: setExpressionStatement_def append_assoc)
  also have "\<dots> = occurrences pat ''calculator.setExpression({ id: 'function''
      + occurrences pat (?idx @ ((''', latex: '' @ [CHR 0x27]) @ (?e @ ''' });'')))"
    using d(1) idx hd_idx by (intro occurrences_append_hd) simp_all
  also have "occurrences pat (?idx @ ((''', latex: '' @ [CHR 0x27]) @ (?e @ ''' });'')))
      = occurrences pat ?idx + occurrences pat ((''', latex: '' @ [CHR 0x27]) @ (?e @ ''' });''))"
    using d(1) idx last_idx by (intro occurrences_append_last) simp_all
  also have "occurrences pat ?idx = 0" using assms by (rule occurrences_string_of_nat)
  also have "occurrences pat ((''', latex: '' @ [CHR 0x27]) @ (?e @ ''' });''))
      = occurrences pat (''', latex: '' @ [CHR 0x27]) + occurrences pat (?e @ ''' });'')"
    using d(1,6) by (intro occurrences_append_last) simp_all
  also have "occurrences pat (?e @ ''' });'') = occurrences pat ?e + occurrences pat ''' });''"
    using d(1,6) by (intro occurrences_append_hd) simp_all
  finally show ?thesis by (simp only: add_0_left add.assoc add.commute add.left_commute)
qed

lemma sum_occurrences_map_index:
  assumes "plainWord pat"
  shows "sum_list (map (occurrences pat) (map_index setExpressionStatement i fs)) =
           length fs * (occurrences pat ''calculator.setExpression({ id: 'function''
             + occurrences pat (''', latex: '' @ [CHR 0x27]) + occurrences pat ''' });'')
           + sum_list (map (occurrences pat) (map normalizeExpression fs))"
  by (induction fs arbitrary: i)
    (simp_all add: occurrences_setExpressionStatement [OF assms] del: occurrences.simps)

lemma occurrences_functionsSection:
  assumes "plainWord pat"
  shows "occurrences pat (functionsSection fs) =
           length fs * (occurrences pat ''calculator.setExpression({ id: 'function''
             + occurrences pat (''', latex: '' @ [CHR 0x27]) + occurrences pat ''' });'')
           + sum_list (map (occurrences pat) (map normalizeExpression fs))"
proof -
  note d = plainWord_delims [OF assms]
  have "occurrences pat (functionsSection fs) =
      sum_list (map (occurrences pat) (functionStatements fs))"
    unfolding functionsSection_def using d(1,5,7) by (intro occurrences_join) auto
  then show ?thesis
    by (simp only: functionStatements_def sum_occurrences_map_index [OF assms])
qed

lemma occurrences_boundsSection:
  assumes "plainWord pat"
  shows "occurrences pat (boundsSection ns x0 x1 y0 y1) =
     (if x0 \<noteq> None \<and> x1 \<noteq> None \<and> y0 \<noteq> None \<and> y1 \<noteq> None
      then occurrences pat ''        calculator.setMathBounds({''
         + occurrences pat ''            left: '' + occurrences pat ''            right: ''
         + occurrences pat ''            bottom: '' + occurrences pat ''            top: ''
         + occurrences pat ''        });''
         + sum_list (map (occurrences pat) (map ns [the x0, the x1, the y0, the y1]))
      else 0)"
proof (cases "x0 \<noteq> None \<and> x1 \<noteq> None \<and> y0 \<noteq> None \<and> y1 \<noteq> None")
  case False
  then have "boundsSection ns x0 x1 y0 y1 = []" unfolding boundsSection_def by (simp only: if_False)
  with False show ?thesis using plainWord_delims(1) [OF assms] by (simp only: occurrences.simps if_False)
next
  case True
  note d = plainWord_delims [OF assms]
  have line: "occurrences pat (a @ t @ '','') = occurrences pat a + occurrences pat t"
    if "a \<noteq> []" "last a = CHR '' ''" for a t
  proof -
    have "occurrences pat (a @ t @ '','') = occurrences pat a + occurrences pat (t @ '','')"
      using d(1,5) that by (intro occurrences_append_last) simp_all
    also have "occurrences pat (t @ '','') = occurrences pat t + occurrences pat '',''"
      using d(1,4) by (intro occurrences_append_hd) simp_all
    also have "occurrences pat '','' = 0"
      using d(1,4) by (intro occurrences_disjoint) simp_all
    finally show ?thesis by (simp only: add_0_right add.assoc)
  qed
  have last_line: "occurrences pat (a @ t) = occurrences pat a + occurrences pat t"
    if "a \<noteq> []" "last a = CHR '' ''" for a t
    using d(1,5) that by (intro occurrences_append_last) simp_all
  have blank: "occurrences pat ''        '' = 0"
    using d(1,5) by (intro occurrences_disjoint) simp_all
  have "occurrences pat (boundsSection ns x0 x1 y0 y1) =
      sum_list (map (occurrences pat)
        ['''',
         ''        calculator.setMathBounds({'',
         ''            left: '' @ ns (the x0) @ '','',
         ''            right: '' @ ns (the x1) @ '','',
         ''            bottom: '' @ ns (the y0) @ '','',
         ''            top: '' @ ns (the y1),
         ''        });'',
         ''        ''])"
  proof -
    have "boundsSection ns x0 x1 y0 y1 = join_str [CHR 0x0A]
        ['''',
         ''        calculator.setMathBounds({'',
         ''            left: '' @ ns (the x0) @ '','',
         ''            right: '' @ ns (the x1) @ '','',
         ''            bottom: '' @ ns (the y0) @ '','',
         ''            top: '' @ ns (the y1),
         ''        });'',
         ''        '']"
      using True by (simp only: boundsSection_def if_True simp_thms)
    then show ?thesis
      using d(1,7) by (simp only:) (intro occurrences_join; simp)
  qed
  moreover have "occurrences pat '''' = 0"
    using d(1) by simp
  moreover have "occurrences pat (''            left: '' @ ns (the x0) @ '','')
      = occurrences pat ''            left: '' + occurrences pat (ns (the x0))"
    by (rule line) simp_all
  moreover have "occurrences pat (''            right: '' @ ns (the x1) @ '','')
      = occurrences pat ''            right: '' + occurrences pat (ns (the x1))"
    by (rule line) simp_all
  moreover have "occurrences pat (''            bottom: '' @ ns (the y0) @ '','')
      = occurrences pat ''            bottom: '' + occurrences pat (ns (the y0))"
    by (rule line) simp_all
  moreover have "occurrences pat (''            top: '' @ ns (the y1))
      = occurrences pat ''            top: '' + occurrences pat (ns (the y1))"
    by (rule last_line) simp_all
  ultimately have "occurrences pat (boundsSection ns x0 x1 y0 y1) =
      occurrences pat ''        calculator.setMathBounds({''
         + occurrences pat ''            left: '' + occurrences pat ''            right: ''
         + occurrences pat ''            bottom: '' + occurrences pat ''            top: ''
         + occurrences pat ''        });''
         + sum_list (map (occurrences pat) (map ns [the x0, the x1, the y0, the y1]))"
    using blank by (simp only: list.map sum_list.Cons sum_list.Nil add_0_left add_0_right ac_simps)
  with True show ?thesis by (simp only: if_True simp_thms)
qed

lemma split_after:
  assumes "plainWord pat" and "x \<noteq> []" and "last x \<in> delimiters"
  shows "occurrences pat (x @ r) = occurrences pat x + occurrences pat r"
  using assms unfolding plainWord_def by (intro occurrences_append_last) auto

lemma split_before:
  assumes "plainWord pat" and "x \<noteq> []" and "hd x \<in> delimiters"
  shows "occurrences pat (u @ x @ r) = occurrences pat u + occurrences pat (x @ r)"
  using assms unfolding plainWord_def by (intro occurrences_append_hd) auto

lemma only_delimiters:
  assumes "plainWord pat" and "set x \<subseteq> delimiters"
  shows "occurrences pat x = 0"
  using assms unfolding plainWord_def by (intro occurrences_disjoint) auto

lemma join_str_nonempty: "ls \<noteq> [] \<Longrightarrow> last ls \<noteq> [] \<Longrightarrow> join_str sep ls \<noteq> []"
  by (induction sep ls rule: join_str.induct) simp_all

lemma hd_join_str: "ls \<noteq> [] \<Longrightarrow> hd ls \<noteq> [] \<Longrightarrow> hd (join_str sep ls) = hd (hd ls)"
  by (induction sep ls rule: join_str.induct) simp_all

lemma last_join_str: "ls \<noteq> [] \<Longrightarrow> last ls \<noteq> [] \<Longrightarrow> last (join_str sep ls) = last (last ls)"
  by (induction sep ls rule: join_str.induct) (simp_all add: join_str_nonempty)

lemmas border_eval = last.simps list.sel list.distinct if_True if_False simp_thms

lemma template_borders:
  "tpl_head \<noteq> []" "last tpl_head = CHR ''>''"
  "tpl_style \<noteq> []" "hd tpl_style = CHR ''<''" "last tpl_style = CHR '' ''"
  "tpl_graphpaper \<noteq> []" "hd tpl_graphpaper = CHR '',''" "last tpl_graphpaper = CHR '' ''"
  "tpl_expressions \<noteq> []" "hd tpl_expressions = CHR '',''" "last tpl_expressions = CHR '' ''"
  "tpl_options \<noteq> []" "hd tpl_options = CHR '',''" "last tpl_options = CHR '' ''"
  unfolding tpl_head_def tpl_style_def tpl_graphpaper_def tpl_expressions_def tpl_options_def
  by ((rule join_str_nonempty | subst hd_join_str | subst last_join_str); simp only: border_eval)+

lemma tail_border: "tpl_tail \<noteq> []" "hd tpl_tail = CHR 0x0A"
  unfolding tpl_tail_def by (simp_all only: join_str.simps append_Nil append_Cons list.sel list.distinct simp_thms)

lemma delimiters_simps:
  "CHR ''<'' \<in> delimiters" "CHR ''>'' \<in> delimiters" "CHR '','' \<in> delimiters"
  "CHR '' '' \<in> delimiters" "CHR 0x0A \<in> delimiters" "CHR 0x27 \<in> delimiters"
  by (simp_all add: delimiters_def)

lemma occurrences_htmlContent:
  assumes "plainWord pat"
  shows "occurrences pat (htmlContent ns fs t x0 x1 y0 y1 g k e) =
     occurrences pat tpl_head + occurrences pat tpl_style + occurrences pat tpl_graphpaper
     + occurrences pat tpl_expressions + occurrences pat tpl_options + occurrences pat tpl_tail
     + occurrences pat (string_of_bool k) + occurrences pat (string_of_bool g)
     + occurrences pat (string_of_bool e)
     + occurrences pat t
     + occurrences pat (boundsSection ns x0 x1 y0 y1)
     + occurrences pat (functionsSection fs)"
proof -
  note b = template_borders tail_border and m = delimiters_simps
  have h: "occurrences pat (tpl_head @ r) = occurrences pat tpl_head + occurrences pat r" for r
    by (rule split_after [OF assms]) (simp_all only: b m simp_thms)
  have s1: "occurrences pat (u @ tpl_style @ r) = occurrences pat u + occurrences pat (tpl_style @ r)" for u r
    by (rule split_before [OF assms]) (simp_all only: b m simp_thms)
  have s2: "occurrences pat (tpl_style @ r) = occurrences pat tpl_style + occurrences pat r" for r
    by (rule split_after [OF assms]) (simp_all only: b m simp_thms)
  have g1: "occurrences pat (u @ tpl_graphpaper @ r) = occurrences pat u + occurrences pat (tpl_graphpaper @ r)" for u r
    by (rule split_before [OF assms]) (simp_all only: b m simp_thms)
  have g2: "occurrences pat (tpl_graphpaper @ r) = occurrences pat tpl_graphpaper + occurrences pat r" for r
    by (rule split_after [OF assms]) (simp_all only: b m simp_thms)
  have e1: "occurrences pat (u @ tpl_expressions @ r) = occurrences pat u + occurrences pat (tpl_expressions @ r)" for u r
    by (rule split_before [OF assms]) (simp_all only: b m simp_thms)
  have e2: "occurrences pat (tpl_expressions @ r) = occurrences pat tpl_expressions + occurrences pat r" for r
    by (rule split_after [OF assms]) (simp_all only: b m simp_thms)
  have o1: "occurrences pat (u @ tpl_options @ r) = occurrences pat u + occurrences pat (tpl_options @ r)" for u r
    by (rule split_before [OF assms]) (simp_all only: b m simp_thms)
  have o2: "occurrences pat (tpl_options @ r) = occurrences pat tpl_options + occurrences pat r" for r
    by (rule split_after [OF assms]) (simp_all only: b m simp_thms)
  have n1: "occurrences pat (u @ [CHR 0x0A, CHR 0x0A] @ r) = occurrences pat u + occurrences pat ([CHR 0x0A, CHR 0x0A] @ r)" for u r
    by (rule split_before [OF assms]) (simp_all add: m)
  have n2: "occurrences pat ([CHR 0x0A, CHR 0x0A] @ r) = occurrences pat r" for r
    using split_after [OF assms, of "[CHR 0x0A, CHR 0x0A]" r] only_delimiters [OF assms, of "[CHR 0x0A, CHR 0x0A]"]
    by (simp add: m del: occurrences.simps)
  have p2: "occurrences pat (''        '' @ r) = occurrences pat r" for r
    using split_after [OF assms, of "''        ''" r] only_delimiters [OF assms, of "''        ''"]
    by (simp add: m del: occurrences.simps)
  have t1: "occurrences pat (u @ tpl_tail) = occurrences pat u + occurrences pat tpl_tail" for u
    using split_before [OF assms, of tpl_tail u "[]"] by (simp add: b m del: occurrences.simps)
  show ?thesis
    unfolding htmlContent_def
    by (simp only: h s1 s2 g1 g2 e1 e2 o1 o2 n1 n2 p2 t1 ac_simps)
qed

lemma occurrences_graphDocument:
  assumes "plainWord pat"
  shows "occurrences pat (graphDocument ns args) =
     templateCount pat + flagCount pat args
     + (if allBounds args then boundsCount pat else 0)
     + length (functions args) * statementCount pat
     + sum_list (map (occurrences pat) (interpolatedTexts ns args))"
proof -
  have "occurrences pat (boundsSection ns (xMin args) (xMax args) (yMin args) (yMax args)) =
      (if allBounds args
       then boundsCount pat
         + sum_list (map (occurrences pat)
             (map ns [the (xMin args), the (xMax args), the (yMin args), the (yMax args)]))
       else 0)"
    by (simp only: occurrences_boundsSection [OF assms] allBounds_def boundsCount_def)
  moreover have "occurrences pat (functionsSection (functions args)) =
      length (functions args) * statementCount pat
      + sum_list (map (occurrences pat) (map normalizeExpression (functions args)))"
    by (simp only: occurrences_functionsSection [OF assms] statementCount_def)
  moreover have "occurrences pat (graphDocument ns args) =
      templateCount pat + flagCount pat args
      + occurrences pat (orDefault (title args) ''Function Graph'')
      + occurrences pat (boundsSection ns (xMin args) (xMax args) (yMin args) (yMax args))
      + occurrences pat (functionsSection (functions args))"
    unfolding graphDocument_def
    by (simp only: occurrences_htmlContent [OF assms] templateCount_def flagCount_def ac_simps)
  ultimately show ?thesis
    by (simp add: interpolatedTexts_def del: occurrences.simps)
qed

lemma occurrences_graphDocument_plain:
  assumes "plainWord pat"
    and "occurrences pat ''true'' = 0" and "occurrences pat ''false'' = 0"
    and "\<forall>t \<in> set (interpolatedTexts ns args). \<not> sublist pat t"
  shows "occurrences pat (graphDocument ns args) =
     templateCount pat + (if allBounds args then boundsCount pat else 0)
     + length (functions args) * statementCount pat"
proof -
  have "occurrences pat (string_of_bool b) = 0" for b
    using assms(2,3) by (cases b) (simp_all only: string_of_bool_def if_True if_False)
  then have "flagCount pat args = 0"
    by (simp only: flagCount_def add_0_left)
  moreover have "occurrences pat t = 0" if "t \<in> set (interpolatedTexts ns args)" for t
    using that assms(4) by (simp only: occurrences_zero_iff) blast
  then have "sum_list (map (occurrences pat) (interpolatedTexts ns args)) = 0"
    by (simp del: occurrences.simps)
  ultimately show ?thesis
    by (simp only: occurrences_graphDocument [OF assms(1)] add_0_right)
qed

subsection \<open>The words of the script in the static text\<close>

lemma plain_setExpression: "plainWord ''setExpression''"
  by (simp add: plainWord_def delimiters_def)

lemma join_setExpression:
  "occurrences ''setExpression'' (join_str [CHR 0x0A] ls) = sum_list (map (occurrences ''setExpression'') ls)"
  by (rule occurrences_join) simp_all

lemma counts_setExpression:
  "templateCount ''setExpression'' = Suc 0"
  "statementCount ''setExpression'' = Suc 0"
  "boundsCount ''setExpression'' = 0"
  "occurrences ''setExpression'' ''true'' = 0"
  "occurrences ''setExpression'' ''false'' = 0"
  unfolding templateCount_def statementCount_def boundsCount_def
    tpl_head_def tpl_style_def tpl_graphpaper_def tpl_expressions_def tpl_options_def tpl_tail_def
  by (simp_all only: join_setExpression append.simps count_literal cong: if_weak_cong)

lemma plain_setMathBounds: "plainWord ''setMathBounds''"
  by (simp add: plainWord_def delimiters_def)

lemma join_setMathBounds:
  "occurrences ''setMathBounds'' (join_str [CHR 0x0A] ls) = sum_list (map (occurrences ''setMathBounds'') ls)"
  by (rule occurrences_join) simp_all

lemma counts_setMathBounds:
  "templateCount ''setMathBounds'' = 0"
  "statementCount ''setMathBounds'' = 0"
  "boundsCount ''setMathBounds'' = Suc 0"
  "occurrences ''setMathBounds'' ''true'' = 0"
  "occurrences ''setMathBounds'' ''false'' = 0"
  unfolding templateCount_def statementCount_def boundsCount_def
    tpl_head_def tpl_style_def tpl_graphpaper_def tpl_expressions_def tpl_options_def tpl_tail_def
  by (simp_all only: join_setMathBounds append.simps count_literal cong: if_weak_cong)

lemma plain_fit: "plainWord ''fit()''"
  by (simp add: plainWord_def delimiters_def)

lemma join_fit:
  "occurrences ''fit()'' (join_str [CHR 0x0A] ls) = sum_list (map (occurrences ''fit()'') ls)"
  by (rule occurrences_join) simp_all

lemma counts_fit:
  "templateCount ''fit()'' = Suc 0"
  "statementCount ''fit()'' = 0"
  "boundsCount ''fit()'' = 0"
  "occurrences ''fit()'' ''true'' = 0"
  "occurrences ''fit()'' ''false'' = 0"
  unfolding templateCount_def statementCount_def boundsCount_def
    tpl_head_def tpl_style_def tpl_graphpaper_def tpl_expressions_def tpl_options_def tpl_tail_def
  by (simp_all only: join_fit append.simps count_literal cong: if_weak_cong)

lemma plain_setTimeout: "plainWord ''setTimeout''"
  by (simp add: plainWord_def delimiters_def)

lemma join_setTimeout:
  "occurrences ''setTimeout'' (join_str [CHR 0x0A] ls) = sum_list (map (occurrences ''setTimeout'') ls)"
  by (rule occurrences_join) simp_all

lemma counts_setTimeout:
  "templateCount ''setTimeout'' = Suc 0"
  "statementCount ''setTimeout'' = 0"
  "boundsCount ''setTimeout'' = 0"
  "occurrences ''setTimeout'' ''true'' = 0"
  "occurrences ''setTimeout'' ''false'' = 0"
  unfolding templateCount_def statementCount_def boundsCount_def
    tpl_head_def tpl_style_def tpl_graphpaper_def tpl_expressions_def tpl_options_def tpl_tail_def
  by (simp_all only: join_setTimeout append.simps count_literal cong: if_weak_cong)

lemma plain_removeExpression: "plainWord ''removeExpression''"
  by (simp add: plainWord_def delimiters_def)

lemma join_removeExpression:
  "occurrences ''removeExpression'' (join_str [CHR 0x0A] ls) = sum_list (map (occurrences ''removeExpression'') ls)"
  by (rule occurrences_join) simp_all

lemma counts_removeExpression:
  "templateCount ''removeExpression'' = Suc 0"
  "statementCount ''removeExpression'' = 0"
  "boundsCount ''removeExpression'' = 0"
  "occurrences ''removeExpression'' ''true'' = 0"
  "occurrences ''removeExpression'' ''false'' = 0"
  unfolding templateCount_def statementCount_def boundsCount_def
    tpl_head_def tpl_style_def tpl_graphpaper_def tpl_expressions_def tpl_options_def tpl_tail_def
  by (simp_all only: join_removeExpression append.simps count_literal cong: if_weak_cong)

subsection \<open>Replacing the first occurrence\<close>

lemma replace_str_first:
  assumes "pat \<noteq> []" and "sublist pat s"
  shows "\<exists>a b. s = a @ pat @ b \<and> (\<forall>a' b'. s = a' @ pat @ b' \<longrightarrow> length a \<le> length a')
           \<and> replace_str s pat rep = a @ rep @ b"
  using assms(2)
proof (induction s)
  case Nil
  with assms(1) show ?case by simp
next
  case (Cons c cs)
  show ?case
  proof (cases "prefix pat (c # cs)")
    case True
    then obtain b where b: "c # cs = pat @ b" by (auto simp: prefix_def)
    have "drop (length pat) (c # cs) = b" by (simp only: b) simp
    with True have r: "replace_str (c # cs) pat rep = [] @ rep @ b" by simp
    from b have e: "c # cs = [] @ pat @ b" by simp
    have "\<forall>a' b'. c # cs = a' @ pat @ b' \<longrightarrow> length ([] :: string) \<le> length a'" by simp
    with e r show ?thesis by blast
  next
    case False
    with Cons.prems have "sublist pat cs" by (simp add: sublist_Cons_right)
    from Cons.IH [OF this] obtain a b where ab: "cs = a @ pat @ b"
      and least: "\<forall>a' b'. cs = a' @ pat @ b' \<longrightarrow> length a \<le> length a'"
      and r: "replace_str cs pat rep = a @ rep @ b" by blast
    have "length (c # a) \<le> length a'" if "c # cs = a' @ pat @ b'" for a' b'
    proof (cases a')
      case Nil
      with that False show ?thesis by (simp add: prefix_def)
    next
      case (Cons x a'')
      with that have "cs = a'' @ pat @ b'" by simp
      with least have "length a \<le> length a''" by blast
      with Cons show ?thesis by simp
    qed
    moreover have "c # cs = (c # a) @ pat @ b" using ab by simp
    moreover have "replace_str (c # cs) pat rep = (c # a) @ rep @ b" using False r by simp
    ultimately show ?thesis by blast
  qed
qed

lemma replace_str_absent: "\<not> sublist pat s \<Longrightarrow> replace_str s pat rep = s"
  by (induction s) (auto simp: sublist_Cons_right)

lemma normalizeExpression_present:
  assumes "sublist ''y='' func"
  shows "\<exists>a b. func = a @ ''y='' @ b \<and> (\<forall>a' b'. func = a' @ ''y='' @ b' \<longrightarrow> length a \<le> length a')
           \<and> normalizeExpression func = a @ b"
  using replace_str_first [of "''y=''" func "''''"] assms
  by (simp add: normalizeExpression_def includes_str_sublist)

lemma normalizeExpression_absent: "\<not> sublist ''y='' func \<Longrightarrow> normalizeExpression func = func"
  by (simp add: normalizeExpression_def includes_str_sublist)



subsection \<open>The statements of the functions\<close>

lemma length_map_index: "length (map_index f k xs) = length xs"
  by (induction xs arbitrary: k) simp_all

lemma nth_map_index: "i < length xs \<Longrightarrow> map_index f k xs ! i = f (xs ! i) (k + i)"
proof (induction xs arbitrary: k i)
  case Nil
  then show ?case by simp
next
  case (Cons x xs)
  then show ?case by (cases i) simp_all
qed

lemma graphDocument_sections:
  "graphDocument ns args =
     (tpl_head @ orDefault (title args) ''Function Graph'' @ tpl_style
        @ string_of_bool (orDefault (showKeypad args) True)
        @ tpl_graphpaper @ string_of_bool (orDefault (showGrid args) True)
        @ tpl_expressions @ string_of_bool (orDefault (showExpressions args) True)
        @ tpl_options)
     @ boundsSection ns (xMin args) (xMax args) (yMin args) (yMax args)
     @ ([CHR 0x0A, CHR 0x0A] @ ''        '')
     @ functionsSection (functions args) @ tpl_tail"
  by (simp only: graphDocument_def htmlContent_def append_assoc)

lemma flagCount_zero:
  assumes "occurrences pat ''true'' = 0" and "occurrences pat ''false'' = 0"
  shows "flagCount pat args = 0"
proof -
  have "occurrences pat (string_of_bool b) = 0" for b
    using assms by (cases b) (simp_all only: string_of_bool_def if_True if_False)
  then show ?thesis by (simp only: flagCount_def add_0_left)
qed

lemma normalizeExpression_literal: "\<not> includes_str func ''y='' \<Longrightarrow> normalizeExpression func = func"
  by (simp add: normalizeExpression_def)

text \<open>Rules that search a literal from left to right.\<close>

lemma includes_str_Cons_Cons:
  "includes_str (c # cs) (p # ps) =
     (if p = c then (if prefix ps cs then True else includes_str cs (p # ps))
      else includes_str cs (p # ps))"
  by simp

lemma includes_str_Nil_Cons: "includes_str [] (p # ps) = False"
  by simp

lemma sublist_Cons_Cons:
  "sublist (p # ps) (c # cs) =
     (if p = c then (if prefix ps cs then True else sublist (p # ps) cs) else sublist (p # ps) cs)"
  by (simp add: sublist_Cons_right)

lemmas search_literal = includes_str_Cons_Cons includes_str_Nil_Cons sublist_Cons_Cons sublist_Cons_Nil
  prefix_Cons_Cons Nil_prefix prefix_Nil char.inject simp_thms if_True if_False

lemma texts_secondStatementRequest:
  "interpolatedTexts string_of_int secondStatementRequest =
     [''Function Graph'', ''x' }); calculator.setExpression({ id: 'function0', latex: 'x^2'']"
proof -
  have "\<not> includes_str ''x' }); calculator.setExpression({ id: 'function0', latex: 'x^2'' ''y=''"
    by (simp only: search_literal cong: if_weak_cong)
  then show ?thesis
    by (simp add: interpolatedTexts_def secondStatementRequest_def allBounds_def orDefault_def
        normalizeExpression_literal)
qed

text \<open>
  C1, as amended. The script's block of function statements is the list
  \<open>functionStatements\<close>: one statement per function, in input order, the \<open>i\<close>-th with the id
  \<open>function<i>\<close> and the normalised expression of the \<open>i\<close>-th function, joined by a newline
  and eight spaces and placed right before the fit statements. Function strings are not
  escaped, so the text of a statement can hold further statements that its function string
  carries. When no interpolated text contains the word \<open>setExpression\<close>, the word
  \<open>setExpression\<close> occurs in the page exactly once per function and once more, in the fit
  registration. This counts occurrences of the word in the text, not the calls the script
  makes when it runs.
\<close>

theorem function_statements_in_order:
  "length (functionStatements (functions args)) = length (functions args)
   \<and> (\<forall>i < length (functions args).
         functionStatements (functions args) ! i =
           ''calculator.setExpression({ id: 'function'' @ string_of_nat i @ ''', latex: ''
             @ [CHR 0x27] @ normalizeExpression (functions args ! i) @ ''' });'')
   \<and> (\<exists>before. graphDocument ns args =
         before @ join_str ([CHR 0x0A] @ ''        '') (functionStatements (functions args)) @ tpl_tail)
   \<and> ((\<forall>text \<in> set (interpolatedTexts ns args). \<not> sublist ''setExpression'' text) \<longrightarrow>
         occurrences ''setExpression'' (graphDocument ns args) = length (functions args) + 1)"
proof (intro conjI allI impI)
  show "length (functionStatements (functions args)) = length (functions args)"
    by (simp only: functionStatements_def length_map_index)
next
  fix i assume "i < length (functions args)"
  then show "functionStatements (functions args) ! i =
      ''calculator.setExpression({ id: 'function'' @ string_of_nat i @ ''', latex: ''
        @ [CHR 0x27] @ normalizeExpression (functions args ! i) @ ''' });''"
    by (simp only: functionStatements_def nth_map_index setExpressionStatement_def add_0_left)
next
  show "\<exists>before. graphDocument ns args =
      before @ join_str ([CHR 0x0A] @ ''        '') (functionStatements (functions args)) @ tpl_tail"
    unfolding functionsSection_def [symmetric]
    by (subst graphDocument_sections) (metis append_assoc)
next
  assume "\<forall>t \<in> set (interpolatedTexts ns args). \<not> sublist ''setExpression'' t"
  then have "occurrences ''setExpression'' (graphDocument ns args) =
      templateCount ''setExpression'' + (if allBounds args then boundsCount ''setExpression'' else 0)
      + length (functions args) * statementCount ''setExpression''"
    by (intro occurrences_graphDocument_plain plain_setExpression counts_setExpression)
  then show "occurrences ''setExpression'' (graphDocument ns args) = length (functions args) + 1"
    by (simp only: counts_setExpression) simp
qed

theorem function_statements_in_order_witness:
  "list_all (\<lambda>t. \<not> sublist ''setExpression'' t) (interpolatedTexts string_of_int parabolaRequest)
   \<and> occurrences ''setExpression'' (graphDocument string_of_int parabolaRequest) = 3
   \<and> (0::nat) < length (functions parabolaRequest) \<and> 1 < length (functions parabolaRequest)
   \<and> functionStatements (functions parabolaRequest) ! 0
        = ''calculator.setExpression({ id: 'function0', latex: 'x' });''
   \<and> functionStatements (functions parabolaRequest) ! 1
        = ''calculator.setExpression({ id: 'function1', latex: 'x^2' });''"
proof -
  have n: "normalizeExpression ''y=x'' = ''x''" "normalizeExpression ''y=x^2'' = ''x^2''"
    by (simp_all add: normalizeExpression_def)
  have i: "string_of_int (- 5) = ''-5''" "string_of_int 5 = ''5''"
    by (simp_all add: string_of_int_def string_of_nat.simps digit_char_def)
  have d: "string_of_nat 0 = ''0''" "string_of_nat (Suc 0) = ''1''"
    by (simp_all add: string_of_nat.simps digit_char_def)
  have t: "interpolatedTexts string_of_int parabolaRequest =
      [''Function Graph'', ''x'', ''x^2'', ''-5'', ''5'', ''-5'', ''5'']"
    by (simp add: interpolatedTexts_def parabolaRequest_def allBounds_def orDefault_def n i)
  have h: "\<forall>t \<in> set (interpolatedTexts string_of_int parabolaRequest). \<not> sublist ''setExpression'' t"
    unfolding t by (simp only: list.set ball_simps search_literal cong: if_weak_cong)
  have l: "functions parabolaRequest = [''y=x'', ''y=x^2'']"
    by (simp add: parabolaRequest_def)
  note inst = function_statements_in_order [of parabolaRequest string_of_int]
  note stmt = inst [THEN conjunct2, THEN conjunct1, rule_format]
  note cnt = inst [THEN conjunct2, THEN conjunct2, THEN conjunct2, THEN mp, OF h]
  from cnt have "occurrences ''setExpression'' (graphDocument string_of_int parabolaRequest) = 3"
    by (simp add: l)
  moreover from stmt [of 0] have "functionStatements (functions parabolaRequest) ! 0
      = ''calculator.setExpression({ id: 'function0', latex: 'x' });''"
    by (simp add: l n d)
  moreover from stmt [of 1] have "functionStatements (functions parabolaRequest) ! 1
      = ''calculator.setExpression({ id: 'function1', latex: 'x^2' });''"
    by (simp add: l n d)
  moreover from h
  have "list_all (\<lambda>t. \<not> sublist ''setExpression'' t) (interpolatedTexts string_of_int parabolaRequest)"
    by (simp only: list_all_iff)
  ultimately show ?thesis by (simp add: l)
qed

theorem function_statements_counterexample:
  "length (functions secondStatementRequest) = 1
   \<and> occurrences ''setExpression'' (graphDocument string_of_int secondStatementRequest) = 3
   \<and> functionsSection (functions secondStatementRequest) =
       ''calculator.setExpression({ id: 'function0', latex: 'x' }); calculator.setExpression({ id: 'function0', latex: 'x^2' });''"
proof -
  have a: "allBounds secondStatementRequest = False"
    by (simp add: allBounds_def secondStatementRequest_def)
  have l: "length (functions secondStatementRequest) = Suc 0"
    by (simp add: secondStatementRequest_def)
  have "occurrences ''setExpression'' (graphDocument string_of_int secondStatementRequest) =
      Suc 0 + Suc 0 + (0 + (Suc 0 + 0))"
    by (simp only: occurrences_graphDocument [OF plain_setExpression] counts_setExpression
        flagCount_zero [OF counts_setExpression(4,5)] texts_secondStatementRequest a l
        list.map sum_list.Cons sum_list.Nil count_literal
        mult_Suc mult_0 add_0_right add_0_left cong: if_weak_cong)
  moreover have "\<not> includes_str ''x' }); calculator.setExpression({ id: 'function0', latex: 'x^2'' ''y=''"
    by (simp only: search_literal cong: if_weak_cong)
  then have "functionsSection (functions secondStatementRequest) =
       ''calculator.setExpression({ id: 'function0', latex: 'x' }); calculator.setExpression({ id: 'function0', latex: 'x^2' });''"
    by (simp add: functionsSection_def functionStatements_def setExpressionStatement_def
        secondStatementRequest_def normalizeExpression_literal string_of_nat.simps digit_char_def)
  ultimately show ?thesis by (simp add: secondStatementRequest_def)
qed

subsection \<open>The bounds call\<close>

lemma texts_ownBoundsRequest:
  "interpolatedTexts string_of_int ownBoundsRequest =
     [''Function Graph'',
      ''x' }); calculator.setMathBounds({ left: 0, right: 1, bottom: 0, top: 1 }); calculator.setExpression({ id: 'g', latex: 'x'']"
proof -
  have "\<not> includes_str ''x' }); calculator.setMathBounds({ left: 0, right: 1, bottom: 0, top: 1 }); calculator.setExpression({ id: 'g', latex: 'x'' ''y=''"
    by (simp only: search_literal cong: if_weak_cong)
  then show ?thesis
    by (simp add: interpolatedTexts_def ownBoundsRequest_def allBounds_def orDefault_def
        normalizeExpression_literal)
qed

text \<open>
  C2, as amended. The template's bounds slot holds the \<open>setMathBounds\<close> call, with \<open>xMin\<close> as
  \<open>left\<close>, \<open>xMax\<close> as \<open>right\<close>, \<open>yMin\<close> as \<open>bottom\<close> and \<open>yMax\<close> as \<open>top\<close>, when all four
  bounds are given, and is empty when any of them is absent. Titles and function strings
  are not escaped and can carry a bounds call of their own; when no interpolated text
  contains the word \<open>setMathBounds\<close>, the page contains it once if all four bounds are
  given and not at all otherwise.
\<close>

theorem bounds_call_iff_all_four:
  "(xMin args = Some x0 \<and> xMax args = Some x1 \<and> yMin args = Some y0 \<and> yMax args = Some y1 \<longrightarrow>
      boundsSection ns (xMin args) (xMax args) (yMin args) (yMax args) =
        join_str [CHR 0x0A]
          ['''',
           ''        calculator.setMathBounds({'',
           ''            left: '' @ ns x0 @ '','',
           ''            right: '' @ ns x1 @ '','',
           ''            bottom: '' @ ns y0 @ '','',
           ''            top: '' @ ns y1,
           ''        });'',
           ''        ''])
   \<and> (xMin args = None \<or> xMax args = None \<or> yMin args = None \<or> yMax args = None \<longrightarrow>
        boundsSection ns (xMin args) (xMax args) (yMin args) (yMax args) = [])
   \<and> (\<exists>before. graphDocument ns args =
         before @ boundsSection ns (xMin args) (xMax args) (yMin args) (yMax args)
           @ [CHR 0x0A, CHR 0x0A] @ ''        '' @ functionsSection (functions args) @ tpl_tail)
   \<and> ((\<forall>text \<in> set (interpolatedTexts ns args). \<not> sublist ''setMathBounds'' text) \<longrightarrow>
         occurrences ''setMathBounds'' (graphDocument ns args) =
           (if xMin args \<noteq> None \<and> xMax args \<noteq> None \<and> yMin args \<noteq> None \<and> yMax args \<noteq> None
            then 1 else 0))"
proof (intro conjI impI)
  assume "xMin args = Some x0 \<and> xMax args = Some x1 \<and> yMin args = Some y0 \<and> yMax args = Some y1"
  then show "boundsSection ns (xMin args) (xMax args) (yMin args) (yMax args) =
        join_str [CHR 0x0A]
          ['''',
           ''        calculator.setMathBounds({'',
           ''            left: '' @ ns x0 @ '','',
           ''            right: '' @ ns x1 @ '','',
           ''            bottom: '' @ ns y0 @ '','',
           ''            top: '' @ ns y1,
           ''        });'',
           ''        '']"
    by (simp only: boundsSection_def option.sel option.distinct simp_thms if_True)
next
  assume "xMin args = None \<or> xMax args = None \<or> yMin args = None \<or> yMax args = None"
  then have "\<not> (xMin args \<noteq> None \<and> xMax args \<noteq> None \<and> yMin args \<noteq> None \<and> yMax args \<noteq> None)"
    by simp
  then show "boundsSection ns (xMin args) (xMax args) (yMin args) (yMax args) = []"
    by (simp only: boundsSection_def if_False)
next
  show "\<exists>before. graphDocument ns args =
         before @ boundsSection ns (xMin args) (xMax args) (yMin args) (yMax args)
           @ [CHR 0x0A, CHR 0x0A] @ ''        '' @ functionsSection (functions args) @ tpl_tail"
    by (subst graphDocument_sections) (metis append_assoc)
next
  assume "\<forall>text \<in> set (interpolatedTexts ns args). \<not> sublist ''setMathBounds'' text"
  then have "occurrences ''setMathBounds'' (graphDocument ns args) =
      templateCount ''setMathBounds'' + (if allBounds args then boundsCount ''setMathBounds'' else 0)
      + length (functions args) * statementCount ''setMathBounds''"
    by (intro occurrences_graphDocument_plain plain_setMathBounds counts_setMathBounds)
  then show "occurrences ''setMathBounds'' (graphDocument ns args) =
           (if xMin args \<noteq> None \<and> xMax args \<noteq> None \<and> yMin args \<noteq> None \<and> yMax args \<noteq> None
            then 1 else 0)"
    by (simp only: counts_setMathBounds allBounds_def) simp
qed

theorem bounds_call_iff_all_four_witness:
  "list_all (\<lambda>t. \<not> sublist ''setMathBounds'' t) (interpolatedTexts string_of_int parabolaRequest)
   \<and> occurrences ''setMathBounds'' (graphDocument string_of_int parabolaRequest) = 1
   \<and> boundsSection string_of_int (xMin parabolaRequest) (xMax parabolaRequest)
        (yMin parabolaRequest) (yMax parabolaRequest) =
       join_str [CHR 0x0A]
         ['''',
          ''        calculator.setMathBounds({'',
          ''            left: -5,'',
          ''            right: 5,'',
          ''            bottom: -5,'',
          ''            top: 5'',
          ''        });'',
          ''        '']
   \<and> list_all (\<lambda>t. \<not> sublist ''setMathBounds'' t) (interpolatedTexts string_of_int threeBoundsRequest)
   \<and> xMax threeBoundsRequest = None
   \<and> occurrences ''setMathBounds'' (graphDocument string_of_int threeBoundsRequest) = 0
   \<and> boundsSection string_of_int (xMin threeBoundsRequest) (xMax threeBoundsRequest)
        (yMin threeBoundsRequest) (yMax threeBoundsRequest) = []"
proof -
  have n: "normalizeExpression ''y=x'' = ''x''" "normalizeExpression ''y=x^2'' = ''x^2''"
    by (simp_all add: normalizeExpression_def)
  have i: "string_of_int (- 5) = ''-5''" "string_of_int 5 = ''5''"
    by (simp_all add: string_of_int_def string_of_nat.simps digit_char_def)
  have p: "xMin parabolaRequest = Some (- 5) \<and> xMax parabolaRequest = Some 5
      \<and> yMin parabolaRequest = Some (- 5) \<and> yMax parabolaRequest = Some 5"
    by (simp add: parabolaRequest_def)
  have q: "xMin threeBoundsRequest = None \<or> xMax threeBoundsRequest = None
      \<or> yMin threeBoundsRequest = None \<or> yMax threeBoundsRequest = None"
    by (simp add: threeBoundsRequest_def)
  have tp: "interpolatedTexts string_of_int parabolaRequest =
      [''Function Graph'', ''x'', ''x^2'', ''-5'', ''5'', ''-5'', ''5'']"
    by (simp add: interpolatedTexts_def parabolaRequest_def allBounds_def orDefault_def n i)
  have hp: "\<forall>t \<in> set (interpolatedTexts string_of_int parabolaRequest). \<not> sublist ''setMathBounds'' t"
    unfolding tp by (simp only: list.set ball_simps search_literal cong: if_weak_cong)
  have tq: "interpolatedTexts string_of_int threeBoundsRequest = [''Function Graph'', ''x'']"
    by (simp add: interpolatedTexts_def threeBoundsRequest_def allBounds_def orDefault_def n)
  have hq: "\<forall>t \<in> set (interpolatedTexts string_of_int threeBoundsRequest). \<not> sublist ''setMathBounds'' t"
    unfolding tq by (simp only: list.set ball_simps search_literal cong: if_weak_cong)
  note ip = bounds_call_iff_all_four [of parabolaRequest "- 5" 5 "- 5" 5 string_of_int]
  note iq = bounds_call_iff_all_four [of threeBoundsRequest 0 0 0 0 string_of_int]
  from ip [THEN conjunct1, THEN mp, OF p]
  have 1: "boundsSection string_of_int (xMin parabolaRequest) (xMax parabolaRequest)
        (yMin parabolaRequest) (yMax parabolaRequest) =
       join_str [CHR 0x0A]
         ['''',
          ''        calculator.setMathBounds({'',
          ''            left: -5,'',
          ''            right: 5,'',
          ''            bottom: -5,'',
          ''            top: 5'',
          ''        });'',
          ''        '']"
    by (simp add: i)
  from ip [THEN conjunct2, THEN conjunct2, THEN conjunct2, THEN mp, OF hp] p
  have 2: "occurrences ''setMathBounds'' (graphDocument string_of_int parabolaRequest) = 1"
    by simp
  from iq [THEN conjunct2, THEN conjunct1, THEN mp, OF q]
  have 3: "boundsSection string_of_int (xMin threeBoundsRequest) (xMax threeBoundsRequest)
        (yMin threeBoundsRequest) (yMax threeBoundsRequest) = []" .
  have x: "xMax threeBoundsRequest = None" by (simp add: threeBoundsRequest_def)
  from iq [THEN conjunct2, THEN conjunct2, THEN conjunct2, THEN mp, OF hq] x
  have 4: "occurrences ''setMathBounds'' (graphDocument string_of_int threeBoundsRequest) = 0"
    by simp
  from hp have hp': "list_all (\<lambda>t. \<not> sublist ''setMathBounds'' t) (interpolatedTexts string_of_int parabolaRequest)"
    by (simp only: list_all_iff)
  from hq have hq': "list_all (\<lambda>t. \<not> sublist ''setMathBounds'' t) (interpolatedTexts string_of_int threeBoundsRequest)"
    by (simp only: list_all_iff)
  from hp' 2 1 hq' x 4 3 show ?thesis by (intro conjI)
qed

theorem bounds_call_counterexample:
  "xMin ownBoundsRequest = None \<and> xMax ownBoundsRequest = None
   \<and> yMin ownBoundsRequest = None \<and> yMax ownBoundsRequest = None
   \<and> occurrences ''setMathBounds'' (graphDocument string_of_int ownBoundsRequest) = 1
   \<and> functionsSection (functions ownBoundsRequest) =
       ''calculator.setExpression({ id: 'function0', latex: 'x' }); calculator.setMathBounds({ left: 0, right: 1, bottom: 0, top: 1 }); calculator.setExpression({ id: 'g', latex: 'x' });''"
proof -
  have a: "allBounds ownBoundsRequest = False"
    by (simp add: allBounds_def ownBoundsRequest_def)
  have l: "length (functions ownBoundsRequest) = Suc 0"
    by (simp add: ownBoundsRequest_def)
  have "occurrences ''setMathBounds'' (graphDocument string_of_int ownBoundsRequest) = Suc 0"
    by (simp only: occurrences_graphDocument [OF plain_setMathBounds] counts_setMathBounds
        flagCount_zero [OF counts_setMathBounds(4,5)] texts_ownBoundsRequest a l
        list.map sum_list.Cons sum_list.Nil count_literal
        mult_Suc mult_0 add_0_right add_0_left cong: if_weak_cong)
  moreover have "\<not> includes_str ''x' }); calculator.setMathBounds({ left: 0, right: 1, bottom: 0, top: 1 }); calculator.setExpression({ id: 'g', latex: 'x'' ''y=''"
    by (simp only: search_literal cong: if_weak_cong)
  then have "functionsSection (functions ownBoundsRequest) =
       ''calculator.setExpression({ id: 'function0', latex: 'x' }); calculator.setMathBounds({ left: 0, right: 1, bottom: 0, top: 1 }); calculator.setExpression({ id: 'g', latex: 'x' });''"
    by (simp add: functionsSection_def functionStatements_def setExpressionStatement_def
        ownBoundsRequest_def normalizeExpression_literal string_of_nat.simps digit_char_def)
  ultimately show ?thesis by (simp add: ownBoundsRequest_def)
qed

subsection \<open>The fit expression\<close>

lemma texts_secondRemovalRequest:
  "interpolatedTexts string_of_int secondRemovalRequest =
     [''Function Graph'',
      ''x' }); setTimeout(() => calculator.removeExpression({ id: 'fit' }), 5); calculator.setExpression({ id: 'g', latex: 'x'']"
proof -
  have "\<not> includes_str ''x' }); setTimeout(() => calculator.removeExpression({ id: 'fit' }), 5); calculator.setExpression({ id: 'g', latex: 'x'' ''y=''"
    by (simp only: search_literal cong: if_weak_cong)
  then show ?thesis
    by (simp add: interpolatedTexts_def secondRemovalRequest_def allBounds_def orDefault_def
        normalizeExpression_literal)
qed

lemma suffix_tpl_tail: "suffix tpl_tail (graphDocument ns args)"
  by (subst graphDocument_sections) (intro suffix_appendI suffix_order.refl)

text \<open>
  C6, as amended. Whatever the request, the page ends with the same text: the registration
  of the expression \<open>fit\<close> with the latex \<open>fit()\<close>, then the \<open>setTimeout\<close> that removes the id
  \<open>fit\<close> after 1000 milliseconds, then the closing tags. Titles and function strings are not
  escaped and can carry further statements; when no interpolated text contains \<open>fit()\<close>,
  \<open>setTimeout\<close> or \<open>removeExpression\<close>, each of the three occurs exactly once in the page.
\<close>

theorem fit_registered_then_removed:
  "suffix tpl_tail (graphDocument ns args)
   \<and> tpl_tail =
       [CHR 0x0A, CHR 0x0A]
       @ ''        calculator.setExpression({ id: 'fit', latex: 'fit()' });'' @ [CHR 0x0A]
       @ ''        setTimeout(() => calculator.removeExpression({ id: 'fit' }), 1000);'' @ [CHR 0x0A]
       @ ''    </script>'' @ [CHR 0x0A] @ ''</body>'' @ [CHR 0x0A] @ ''</html>''
   \<and> ((\<forall>text \<in> set (interpolatedTexts ns args).
          \<not> sublist ''fit()'' text \<and> \<not> sublist ''setTimeout'' text
          \<and> \<not> sublist ''removeExpression'' text) \<longrightarrow>
        occurrences ''fit()'' (graphDocument ns args) = 1
        \<and> occurrences ''setTimeout'' (graphDocument ns args) = 1
        \<and> occurrences ''removeExpression'' (graphDocument ns args) = 1)"
proof (intro conjI impI)
  show "suffix tpl_tail (graphDocument ns args)" by (rule suffix_tpl_tail)
next
  show "tpl_tail =
       [CHR 0x0A, CHR 0x0A]
       @ ''        calculator.setExpression({ id: 'fit', latex: 'fit()' });'' @ [CHR 0x0A]
       @ ''        setTimeout(() => calculator.removeExpression({ id: 'fit' }), 1000);'' @ [CHR 0x0A]
       @ ''    </script>'' @ [CHR 0x0A] @ ''</body>'' @ [CHR 0x0A] @ ''</html>''"
    by (simp add: tpl_tail_def)
next
  assume h: "\<forall>t \<in> set (interpolatedTexts ns args).
          \<not> sublist ''fit()'' t \<and> \<not> sublist ''setTimeout'' t \<and> \<not> sublist ''removeExpression'' t"
  then have "\<forall>t \<in> set (interpolatedTexts ns args). \<not> sublist ''fit()'' t" by blast
  then have "occurrences ''fit()'' (graphDocument ns args) =
      templateCount ''fit()'' + (if allBounds args then boundsCount ''fit()'' else 0)
      + length (functions args) * statementCount ''fit()''"
    by (intro occurrences_graphDocument_plain plain_fit counts_fit)
  then show "occurrences ''fit()'' (graphDocument ns args) = 1"
    by (simp only: counts_fit) simp
next
  assume h: "\<forall>t \<in> set (interpolatedTexts ns args).
          \<not> sublist ''fit()'' t \<and> \<not> sublist ''setTimeout'' t \<and> \<not> sublist ''removeExpression'' t"
  then have "\<forall>t \<in> set (interpolatedTexts ns args). \<not> sublist ''setTimeout'' t" by blast
  then have "occurrences ''setTimeout'' (graphDocument ns args) =
      templateCount ''setTimeout'' + (if allBounds args then boundsCount ''setTimeout'' else 0)
      + length (functions args) * statementCount ''setTimeout''"
    by (intro occurrences_graphDocument_plain plain_setTimeout counts_setTimeout)
  then show "occurrences ''setTimeout'' (graphDocument ns args) = 1"
    by (simp only: counts_setTimeout) simp
next
  assume h: "\<forall>t \<in> set (interpolatedTexts ns args).
          \<not> sublist ''fit()'' t \<and> \<not> sublist ''setTimeout'' t \<and> \<not> sublist ''removeExpression'' t"
  then have "\<forall>t \<in> set (interpolatedTexts ns args). \<not> sublist ''removeExpression'' t" by blast
  then have "occurrences ''removeExpression'' (graphDocument ns args) =
      templateCount ''removeExpression'' + (if allBounds args then boundsCount ''removeExpression'' else 0)
      + length (functions args) * statementCount ''removeExpression''"
    by (intro occurrences_graphDocument_plain plain_removeExpression counts_removeExpression)
  then show "occurrences ''removeExpression'' (graphDocument ns args) = 1"
    by (simp only: counts_removeExpression) simp
qed

theorem fit_registered_then_removed_witness:
  "list_all (\<lambda>t. \<not> sublist ''fit()'' t \<and> \<not> sublist ''setTimeout'' t \<and> \<not> sublist ''removeExpression'' t)
     (interpolatedTexts string_of_int waveRequest)
   \<and> occurrences ''fit()'' (graphDocument string_of_int waveRequest) = 1
   \<and> occurrences ''setTimeout'' (graphDocument string_of_int waveRequest) = 1
   \<and> occurrences ''removeExpression'' (graphDocument string_of_int waveRequest) = 1"
proof -
  have n: "normalizeExpression ''y=sin(x)'' = ''sin(x)''"
    by (simp add: normalizeExpression_def)
  have t: "interpolatedTexts string_of_int waveRequest = [''Wave'', ''sin(x)'']"
    by (simp add: interpolatedTexts_def waveRequest_def allBounds_def orDefault_def n)
  have h: "\<forall>t \<in> set (interpolatedTexts string_of_int waveRequest).
      \<not> sublist ''fit()'' t \<and> \<not> sublist ''setTimeout'' t \<and> \<not> sublist ''removeExpression'' t"
    unfolding t by (simp only: list.set ball_simps search_literal cong: if_weak_cong)
  from fit_registered_then_removed [of string_of_int waveRequest, THEN conjunct2, THEN conjunct2,
      THEN mp, OF h] h
  show ?thesis by (simp only: list_all_iff)
qed

theorem fit_registered_counterexample:
  "occurrences ''setTimeout'' (graphDocument string_of_int secondRemovalRequest) = 2
   \<and> occurrences ''removeExpression'' (graphDocument string_of_int secondRemovalRequest) = 2
   \<and> functionsSection (functions secondRemovalRequest) =
       ''calculator.setExpression({ id: 'function0', latex: 'x' }); setTimeout(() => calculator.removeExpression({ id: 'fit' }), 5); calculator.setExpression({ id: 'g', latex: 'x' });''"
proof -
  have a: "allBounds secondRemovalRequest = False"
    by (simp add: allBounds_def secondRemovalRequest_def)
  have l: "length (functions secondRemovalRequest) = Suc 0"
    by (simp add: secondRemovalRequest_def)
  have "occurrences ''setTimeout'' (graphDocument string_of_int secondRemovalRequest) = Suc (Suc 0)"
    by (simp only: occurrences_graphDocument [OF plain_setTimeout] counts_setTimeout
        flagCount_zero [OF counts_setTimeout(4,5)] texts_secondRemovalRequest a l
        list.map sum_list.Cons sum_list.Nil count_literal
        mult_Suc mult_0 add_0_right add_0_left cong: if_weak_cong)
  moreover
  have "occurrences ''removeExpression'' (graphDocument string_of_int secondRemovalRequest) = Suc (Suc 0)"
    by (simp only: occurrences_graphDocument [OF plain_removeExpression] counts_removeExpression
        flagCount_zero [OF counts_removeExpression(4,5)] texts_secondRemovalRequest a l
        list.map sum_list.Cons sum_list.Nil count_literal
        mult_Suc mult_0 add_0_right add_0_left cong: if_weak_cong)
  moreover have "\<not> includes_str ''x' }); setTimeout(() => calculator.removeExpression({ id: 'fit' }), 5); calculator.setExpression({ id: 'g', latex: 'x'' ''y=''"
    by (simp only: search_literal cong: if_weak_cong)
  then have "functionsSection (functions secondRemovalRequest) =
       ''calculator.setExpression({ id: 'function0', latex: 'x' }); setTimeout(() => calculator.removeExpression({ id: 'fit' }), 5); calculator.setExpression({ id: 'g', latex: 'x' });''"
    by (simp add: functionsSection_def functionStatements_def setExpressionStatement_def
        secondRemovalRequest_def normalizeExpression_literal string_of_nat.simps digit_char_def)
  ultimately show ?thesis by simp
qed

subsection \<open>Expressions reach the page as they are\<close>

lemma sublist_sep:
  fixes s :: string
  assumes "c \<notin> set s" and "sublist s (a @ c # b)"
  shows "sublist s a \<or> sublist s b"
proof (cases "s = []")
  case True
  then show ?thesis by simp
next
  case False
  from assms(2) have "occurrences s (a @ c # b) \<noteq> 0"
    by (simp add: occurrences_zero_iff del: occurrences.simps)
  then have "occurrences s a + occurrences s b \<noteq> 0"
    using occurrences_sep [OF False assms(1), of a b] by (simp del: occurrences.simps)
  then have "occurrences s a \<noteq> 0 \<or> occurrences s b \<noteq> 0" by simp
  then show ?thesis by (simp add: occurrences_zero_iff del: occurrences.simps)
qed

lemma sublist_normalizeExpression:
  assumes "CHR ''y'' \<notin> set s" and "CHR ''='' \<notin> set s" and "sublist s func"
  shows "sublist s (normalizeExpression func)"
proof (cases "sublist ''y='' func")
  case False
  with assms(3) show ?thesis by (simp add: normalizeExpression_absent)
next
  case True
  from normalizeExpression_present [OF this] obtain a b
    where f: "func = a @ ''y='' @ b" and n: "normalizeExpression func = a @ b" by blast
  from f assms(3) have "sublist s (a @ CHR ''y'' # (CHR ''='' # b))" by simp
  from sublist_sep [OF assms(1) this] have "sublist s a \<or> sublist s ([] @ CHR ''='' # b)" by simp
  then have "sublist s a \<or> sublist s b"
    using sublist_sep [OF assms(2), of "[]" b] by auto
  then show ?thesis by (auto simp: n sublist_append)
qed

lemma sublist_join_member: "x \<in> set ls \<Longrightarrow> sublist x (join_str sep ls)"
  by (induction sep ls rule: join_str.induct) (auto simp: sublist_append)

lemma statement_of_member:
  "func \<in> set fs \<Longrightarrow> \<exists>i. setExpressionStatement func i \<in> set (map_index setExpressionStatement k fs)"
  by (induction fs arbitrary: k) auto

lemma sublist_in_middle: "sublist x m \<Longrightarrow> sublist x (a @ m @ b)"
proof -
  assume "sublist x m"
  then obtain p q where "m = p @ x @ q" by (auto simp: sublist_def)
  then have "a @ m @ b = (a @ p) @ x @ (q @ b)" by simp
  then show ?thesis unfolding sublist_def by blast
qed

lemma graphDocument_functions:
  "graphDocument ns args =
     (tpl_head @ orDefault (title args) ''Function Graph'' @ tpl_style
        @ string_of_bool (orDefault (showKeypad args) True)
        @ tpl_graphpaper @ string_of_bool (orDefault (showGrid args) True)
        @ tpl_expressions @ string_of_bool (orDefault (showExpressions args) True)
        @ tpl_options
        @ boundsSection ns (xMin args) (xMax args) (yMin args) (yMax args)
        @ [CHR 0x0A, CHR 0x0A] @ ''        '')
     @ functionsSection (functions args) @ tpl_tail"
  by (simp only: graphDocument_def htmlContent_def append_assoc)

lemma sublist_functionsSection:
  assumes "sublist x (functionsSection (functions args))"
  shows "sublist x (graphDocument ns args)"
  by (subst graphDocument_functions) (rule sublist_in_middle [OF assms])

lemma sublist_statement:
  assumes "func \<in> set (functions args)" and "sublist x (normalizeExpression func)"
  shows "sublist x (graphDocument ns args)"
proof -
  from statement_of_member [OF assms(1)] obtain i
    where "setExpressionStatement func i \<in> set (functionStatements (functions args))"
    unfolding functionStatements_def by blast
  then have "sublist (setExpressionStatement func i) (functionsSection (functions args))"
    unfolding functionsSection_def by (rule sublist_join_member)
  moreover have "sublist x (setExpressionStatement func i)"
    unfolding setExpressionStatement_def using assms(2) by (simp only: sublist_append) simp
  ultimately have "sublist x (functionsSection (functions args))"
    by (rule sublist_order.order.trans [rotated])
  then show ?thesis by (rule sublist_functionsSection)
qed

lemma sublist_latex:
  assumes "func \<in> set (functions args)"
  shows "sublist (''latex: '' @ [CHR 0x27] @ normalizeExpression func @ ''' });'') (graphDocument ns args)"
proof -
  from statement_of_member [OF assms] obtain i
    where "setExpressionStatement func i \<in> set (functionStatements (functions args))"
    unfolding functionStatements_def by blast
  then have "sublist (setExpressionStatement func i) (functionsSection (functions args))"
    unfolding functionsSection_def by (rule sublist_join_member)
  moreover have "setExpressionStatement func i =
      (''calculator.setExpression({ id: 'function'' @ string_of_nat i @ ''', '')
      @ (''latex: '' @ [CHR 0x27] @ normalizeExpression func @ ''' });'')"
    by (simp add: setExpressionStatement_def)
  then have "sublist (''latex: '' @ [CHR 0x27] @ normalizeExpression func @ ''' });'')
      (setExpressionStatement func i)"
    by (simp only: sublist_append_leftI)
  ultimately have "sublist (''latex: '' @ [CHR 0x27] @ normalizeExpression func @ ''' });'')
      (functionsSection (functions args))"
    by (rule sublist_order.order.trans [rotated])
  then show ?thesis by (rule sublist_functionsSection)
qed

text \<open>
  C8. The normalised expression of every function stands in the page between \<open>latex: '\<close> and
  \<open>' });\<close> with no character changed. A function string without \<open>y=\<close> therefore appears
  verbatim, and of any function string every piece that has neither \<open>y\<close> nor \<open>=\<close> in
  it (a quote, \<open></script>\<close>) appears verbatim.
\<close>

theorem expressions_interpolated_verbatim:
  "\<forall>func \<in> set (functions args).
      sublist (''latex: '' @ [CHR 0x27] @ normalizeExpression func @ ''' });'') (graphDocument ns args)
      \<and> (\<not> sublist ''y='' func \<longrightarrow> sublist func (graphDocument ns args))
      \<and> (\<forall>s. sublist s func \<and> CHR ''y'' \<notin> set s \<and> CHR ''='' \<notin> set s \<longrightarrow>
            sublist s (graphDocument ns args))"
proof (intro ballI conjI impI allI)
  fix func assume "func \<in> set (functions args)"
  then show "sublist (''latex: '' @ [CHR 0x27] @ normalizeExpression func @ ''' });'')
      (graphDocument ns args)"
    by (rule sublist_latex)
next
  fix func assume f: "func \<in> set (functions args)" and "\<not> sublist ''y='' func"
  then have "sublist func (normalizeExpression func)"
    by (simp add: normalizeExpression_absent)
  with f show "sublist func (graphDocument ns args)" by (rule sublist_statement)
next
  fix func s assume f: "func \<in> set (functions args)"
    and "sublist s func \<and> CHR ''y'' \<notin> set s \<and> CHR ''='' \<notin> set s"
  then have "sublist s (normalizeExpression func)"
    using sublist_normalizeExpression [of s func] by blast
  with f show "sublist s (graphDocument ns args)" by (rule sublist_statement)
qed

theorem expressions_interpolated_verbatim_witness:
  "''x'</script>'' \<in> set (functions quoteRequest)
   \<and> sublist ''latex: 'x'</script>' });'' (graphDocument string_of_int quoteRequest)
   \<and> \<not> sublist ''y='' ''x'</script>''
   \<and> sublist ''x'</script>'' (graphDocument string_of_int quoteRequest)
   \<and> sublist ''</script>'' ''x'</script>''
   \<and> sublist ''</script>'' (graphDocument string_of_int quoteRequest)"
proof -
  have m: "''x'</script>'' \<in> set (functions quoteRequest)"
    by (simp add: quoteRequest_def)
  have y: "\<not> sublist ''y='' ''x'</script>''"
    by (simp only: search_literal cong: if_weak_cong)
  have n: "normalizeExpression ''x'</script>'' = ''x'</script>''"
    using y by (rule normalizeExpression_absent)
  have s: "sublist ''</script>'' ''x'</script>''"
    by (simp only: search_literal cong: if_weak_cong)
  have c: "CHR ''y'' \<notin> set ''</script>''" "CHR ''='' \<notin> set ''</script>''"
    by simp_all
  note inst = expressions_interpolated_verbatim [of quoteRequest string_of_int, rule_format, OF m]
  from inst [THEN conjunct1]
  have 1: "sublist ''latex: 'x'</script>' });'' (graphDocument string_of_int quoteRequest)"
    by (simp add: n)
  from inst [THEN conjunct2, THEN conjunct1] y
  have 2: "sublist ''x'</script>'' (graphDocument string_of_int quoteRequest)"
    by blast
  from inst [THEN conjunct2, THEN conjunct2] s c
  have 3: "sublist ''</script>'' (graphDocument string_of_int quoteRequest)"
    by blast
  from m 1 y 2 s 3 show ?thesis by (intro conjI)
qed

subsection \<open>Defaults\<close>

lemma suffix_join_last: "ls \<noteq> [] \<Longrightarrow> suffix x (last ls) \<Longrightarrow> suffix x (join_str sep ls)"
  by (induction sep ls rule: join_str.induct) (auto intro: suffix_appendI)

lemma prefix_join_hd: "ls \<noteq> [] \<Longrightarrow> prefix x (hd ls) \<Longrightarrow> prefix x (join_str sep ls)"
  by (induction sep ls rule: join_str.induct) (auto intro: prefix_prefix)

text \<open>
  C5. A request without a title gives the page of the same request with the title
  \<open>Function Graph\<close>, and a request without \<open>showGrid\<close>, \<open>showKeypad\<close> or \<open>showExpressions\<close> gives
  the page of the same request with that flag \<open>true\<close>. In the page the title stands between
  \<open><title>\<close> and \<open></title>\<close>, \<open>showKeypad\<close> after \<open>keypad:\<close>, \<open>showGrid\<close> after \<open>graphpaper:\<close> and
  \<open>showExpressions\<close> after \<open>expressions:\<close> in the options of the calculator.
\<close>

theorem omitted_parameters_default:
  "graphDocument ns (args\<lparr>title := None\<rparr>) = graphDocument ns (args\<lparr>title := Some ''Function Graph''\<rparr>)
   \<and> graphDocument ns (args\<lparr>showGrid := None\<rparr>) = graphDocument ns (args\<lparr>showGrid := Some True\<rparr>)
   \<and> graphDocument ns (args\<lparr>showKeypad := None\<rparr>) = graphDocument ns (args\<lparr>showKeypad := Some True\<rparr>)
   \<and> graphDocument ns (args\<lparr>showExpressions := None\<rparr>)
       = graphDocument ns (args\<lparr>showExpressions := Some True\<rparr>)
   \<and> (\<exists>rest.
         graphDocument ns (args\<lparr>title := Some t, showGrid := Some g, showKeypad := Some k,
                                  showExpressions := Some e\<rparr>) =
           tpl_head @ t @ tpl_style @ string_of_bool k @ tpl_graphpaper @ string_of_bool g
             @ tpl_expressions @ string_of_bool e @ tpl_options @ rest)
   \<and> (\<exists>rest.
         graphDocument ns (args\<lparr>title := None, showGrid := None, showKeypad := None,
                                  showExpressions := None\<rparr>) =
           tpl_head @ ''Function Graph'' @ tpl_style @ ''true'' @ tpl_graphpaper @ ''true''
             @ tpl_expressions @ ''true'' @ tpl_options @ rest)
   \<and> suffix ''<title>'' tpl_head \<and> prefix ''</title>'' tpl_style
   \<and> suffix ''            keypad: '' tpl_style
   \<and> tpl_graphpaper = '','' @ [CHR 0x0A] @ ''            graphpaper: ''
   \<and> tpl_expressions = '','' @ [CHR 0x0A] @ ''            expressions: ''
   \<and> prefix '','' tpl_options"
proof (intro conjI)
  show "\<exists>rest.
         graphDocument ns (args\<lparr>title := Some t, showGrid := Some g, showKeypad := Some k,
                                  showExpressions := Some e\<rparr>) =
           tpl_head @ t @ tpl_style @ string_of_bool k @ tpl_graphpaper @ string_of_bool g
             @ tpl_expressions @ string_of_bool e @ tpl_options @ rest"
    by (simp add: graphDocument_def htmlContent_def orDefault_def)
  show "\<exists>rest.
         graphDocument ns (args\<lparr>title := None, showGrid := None, showKeypad := None,
                                  showExpressions := None\<rparr>) =
           tpl_head @ ''Function Graph'' @ tpl_style @ ''true'' @ tpl_graphpaper @ ''true''
             @ tpl_expressions @ ''true'' @ tpl_options @ rest"
    by (simp add: graphDocument_def htmlContent_def orDefault_def string_of_bool_def)
  show "suffix ''<title>'' tpl_head"
    unfolding tpl_head_def by (rule suffix_join_last; (simp only: border_eval)?; (simp add: suffix_def)?)
  show "prefix ''</title>'' tpl_style"
    unfolding tpl_style_def by (rule prefix_join_hd; (simp only: border_eval)?; simp?)
  show "suffix ''            keypad: '' tpl_style"
    unfolding tpl_style_def by (rule suffix_join_last; (simp only: border_eval)?; (simp add: suffix_def)?)
  show "tpl_graphpaper = '','' @ [CHR 0x0A] @ ''            graphpaper: ''"
    by (simp add: tpl_graphpaper_def)
  show "tpl_expressions = '','' @ [CHR 0x0A] @ ''            expressions: ''"
    by (simp add: tpl_expressions_def)
  show "prefix '','' tpl_options"
    unfolding tpl_options_def by (rule prefix_join_hd; (simp only: border_eval)?; simp?)
qed (simp_all add: graphDocument_def orDefault_def)

subsection \<open>Bounds that are zero\<close>

lemma string_of_int_0: "string_of_int 0 = ''0''"
  by (simp add: string_of_int_def string_of_nat.simps digit_char_def)

text \<open>
  C10. The bounds are tested against \<open>undefined\<close> only (here: against \<^const>\<open>None\<close>), not for
  truth: a request whose four bounds are all \<open>0\<close> gets the bounds call, with \<open>left\<close>,
  \<open>right\<close>, \<open>bottom\<close> and \<open>top\<close> all \<open>0\<close>, in the bounds slot of its page.
\<close>

theorem zero_bounds_are_present:
  "boundsSection string_of_int (Some 0) (Some 0) (Some 0) (Some 0) =
     join_str [CHR 0x0A]
       ['''',
        ''        calculator.setMathBounds({'',
        ''            left: 0,'',
        ''            right: 0,'',
        ''            bottom: 0,'',
        ''            top: 0'',
        ''        });'',
        ''        '']
   \<and> (\<exists>before.
         graphDocument string_of_int
           (args\<lparr>xMin := Some 0, xMax := Some 0, yMin := Some 0, yMax := Some 0\<rparr>) =
         before
         @ join_str [CHR 0x0A]
             ['''',
              ''        calculator.setMathBounds({'',
              ''            left: 0,'',
              ''            right: 0,'',
              ''            bottom: 0,'',
              ''            top: 0'',
              ''        });'',
              ''        '']
         @ [CHR 0x0A, CHR 0x0A] @ ''        '' @ functionsSection (functions args) @ tpl_tail)"
proof -
  have b: "boundsSection string_of_int (Some 0) (Some 0) (Some 0) (Some 0) =
     join_str [CHR 0x0A]
       ['''',
        ''        calculator.setMathBounds({'',
        ''            left: 0,'',
        ''            right: 0,'',
        ''            bottom: 0,'',
        ''            top: 0'',
        ''        });'',
        ''        '']"
    by (simp add: boundsSection_def string_of_int_0)
  let ?args = "args\<lparr>xMin := Some 0, xMax := Some 0, yMin := Some 0, yMax := Some 0\<rparr>"
  have "graphDocument string_of_int ?args =
      (tpl_head @ orDefault (title args) ''Function Graph'' @ tpl_style
        @ string_of_bool (orDefault (showKeypad args) True)
        @ tpl_graphpaper @ string_of_bool (orDefault (showGrid args) True)
        @ tpl_expressions @ string_of_bool (orDefault (showExpressions args) True)
        @ tpl_options)
      @ boundsSection string_of_int (Some 0) (Some 0) (Some 0) (Some 0)
      @ [CHR 0x0A, CHR 0x0A] @ ''        '' @ functionsSection (functions args) @ tpl_tail"
    by (simp add: graphDocument_sections [of string_of_int ?args])
  then show ?thesis unfolding b by blast
qed

subsection \<open>The response\<close>

lemma graph_handler_wrapped:
  "createUIResource (graphResourceOptions now (graphDocument ns args)) = Inr res \<Longrightarrow>
   graph_handler createUIResource now ns args = Inr \<lparr>content = [res]\<rparr>"
  by (simp add: graph_handler_def)

lemma graph_handler_recovered:
  "createUIResource (graphResourceOptions now (graphDocument ns args)) = Inl error \<Longrightarrow>
   createUIResource (errorResourceOptions error) = Inr res \<Longrightarrow>
   graph_handler createUIResource now ns args = Inr \<lparr>content = [res]\<rparr>"
  by (simp add: graph_handler_def)

lemma graph_handler_raised:
  "createUIResource (graphResourceOptions now (graphDocument ns args)) = Inl error \<Longrightarrow>
   createUIResource (errorResourceOptions error) = Inl error' \<Longrightarrow>
   graph_handler createUIResource now ns args = Inl error'"
  by (simp add: graph_handler_def)

lemma graph_handler_returns:
  assumes "graph_handler createUIResource now ns args = Inr response"
  shows "\<exists>res. content response = [res]
           \<and> (createUIResource (graphResourceOptions now (graphDocument ns args)) = Inr res
              \<or> (\<exists>error. createUIResource (graphResourceOptions now (graphDocument ns args)) = Inl error
                    \<and> createUIResource (errorResourceOptions error) = Inr res))"
  using assms by (auto simp: graph_handler_def split: sum.splits)

lemma uri_graphResourceOptions_inj:
  assumes "uri (graphResourceOptions now html) = uri (graphResourceOptions now' html')"
  shows "now = now'"
proof -
  from assms have "string_of_nat now = string_of_nat now'"
    by (simp add: graphResourceOptions_def)
  then show ?thesis by (rule string_of_nat_inj)
qed

text \<open>
  C9. The page is built from the request alone: two calls whose nine parameters agree hand
  the same \<open>htmlString\<close> to \<open>createUIResource\<close>, whatever the clock reads, and the two
  option objects differ in nothing but the \<open>uri\<close>.
\<close>

theorem document_depends_on_request_only:
  "functions a = functions b \<and> title a = title b
   \<and> xMin a = xMin b \<and> xMax a = xMax b \<and> yMin a = yMin b \<and> yMax a = yMax b
   \<and> showGrid a = showGrid b \<and> showKeypad a = showKeypad b \<and> showExpressions a = showExpressions b
   \<longrightarrow>
     htmlString (resource_content (graphResourceOptions now (graphDocument ns a)))
       = htmlString (resource_content (graphResourceOptions now' (graphDocument ns b)))
     \<and> (graphResourceOptions now (graphDocument ns a)) \<lparr>uri := u\<rparr>
       = (graphResourceOptions now' (graphDocument ns b)) \<lparr>uri := u\<rparr>"
  by (simp add: graphResourceOptions_def graphDocument_def)

theorem document_depends_on_request_only_witness:
  "htmlString (resource_content
       (graphResourceOptions 1730000000123 (graphDocument string_of_int waveRequest)))
     = htmlString (resource_content
         (graphResourceOptions 1730000000456 (graphDocument string_of_int waveRequest)))
   \<and> (graphResourceOptions 1730000000123 (graphDocument string_of_int waveRequest)) \<lparr>uri := []\<rparr>
     = (graphResourceOptions 1730000000456 (graphDocument string_of_int waveRequest)) \<lparr>uri := []\<rparr>
   \<and> uri (graphResourceOptions 1730000000123 (graphDocument string_of_int waveRequest))
       = ''ui://desmos-graph/1730000000123''
   \<and> uri (graphResourceOptions 1730000000456 (graphDocument string_of_int waveRequest))
       = ''ui://desmos-graph/1730000000456''"
proof -
  have d: "string_of_nat 1730000000123 = ''1730000000123''"
    "string_of_nat 1730000000456 = ''1730000000456''"
    by (simp_all add: string_of_nat.simps digit_char_def)
  from document_depends_on_request_only
    [of waveRequest waveRequest 1730000000123 string_of_int 1730000000456 "[]"]
  show ?thesis by (simp add: graphResourceOptions_def d)
qed

text \<open>
  C4, as amended. When \<open>createUIResource\<close> throws on the graph page and then wraps the error
  page, the handler returns a response whose only content item is that resource; the
  error page is requested under the fixed URI \<open>ui://error-component/desmos-graph\<close> with
  the encoding \<open>blob\<close>, and its HTML is the fixed error layout around the message of the
  caught \<open>Error\<close>, or around \<open>Unknown error occurred\<close> for any other thrown value. The call of
  \<open>createUIResource\<close> in the \<open>catch\<close> block is not guarded: when it throws as well, the
  handler raises that second value to its caller.
\<close>

theorem construction_failure_gives_error_page:
  "(createUIResource (graphResourceOptions now (graphDocument ns args)) = Inl error
      \<and> createUIResource (errorResourceOptions error) = Inr res \<longrightarrow>
        graph_handler createUIResource now ns args = Inr \<lparr>content = [res]\<rparr>)
   \<and> (createUIResource (graphResourceOptions now (graphDocument ns args)) = Inl error
      \<and> createUIResource (errorResourceOptions error) = Inl error' \<longrightarrow>
        graph_handler createUIResource now ns args = Inl error')
   \<and> uri (errorResourceOptions error) = ''ui://error-component/desmos-graph''
   \<and> encoding (errorResourceOptions error) = ''blob''
   \<and> content_type (resource_content (errorResourceOptions error)) = ''rawHtml''
   \<and> htmlString (resource_content (errorResourceOptions (ErrorObject msg)))
       = err_head @ msg @ err_tail
   \<and> htmlString (resource_content (errorResourceOptions OtherValue))
       = err_head @ ''Unknown error occurred'' @ err_tail"
  by (simp add: graph_handler_recovered graph_handler_raised errorResourceOptions_def
      errorHtml_def errorText_def)

theorem construction_failure_gives_error_page_witness:
  "wrapsErrorPageOnly (graphResourceOptions 1730000000123 (graphDocument string_of_int waveRequest))
     = Inl (ErrorObject ''cannot encode'')
   \<and> wrapsErrorPageOnly (errorResourceOptions (ErrorObject ''cannot encode''))
     = Inr (errorResourceOptions (ErrorObject ''cannot encode''))
   \<and> graph_handler wrapsErrorPageOnly 1730000000123 string_of_int waveRequest
     = Inr \<lparr>content = [errorResourceOptions (ErrorObject ''cannot encode'')]\<rparr>
   \<and> htmlString (resource_content (errorResourceOptions (ErrorObject ''cannot encode'')))
     = err_head @ ''cannot encode'' @ err_tail
   \<and> wrapsNoPage (graphResourceOptions 1730000000456 (graphDocument string_of_int parabolaRequest))
     = Inl (ErrorObject ''cannot encode'')
   \<and> wrapsNoPage (errorResourceOptions (ErrorObject ''cannot encode''))
     = Inl (ErrorObject ''cannot encode'')
   \<and> graph_handler wrapsNoPage 1730000000456 string_of_int parabolaRequest
     = Inl (ErrorObject ''cannot encode'')"
proof -
  have d: "string_of_nat 1730000000123 = ''1730000000123''"
    by (simp add: string_of_nat.simps digit_char_def)
  have 1: "wrapsErrorPageOnly (graphResourceOptions 1730000000123 (graphDocument string_of_int waveRequest))
     = Inl (ErrorObject ''cannot encode'')"
    by (simp add: wrapsErrorPageOnly_def graphResourceOptions_def d)
  have 2: "wrapsErrorPageOnly (errorResourceOptions (ErrorObject ''cannot encode''))
     = Inr (errorResourceOptions (ErrorObject ''cannot encode''))"
    by (simp add: wrapsErrorPageOnly_def errorResourceOptions_def)
  have 3: "wrapsNoPage (graphResourceOptions 1730000000456 (graphDocument string_of_int parabolaRequest))
     = Inl (ErrorObject ''cannot encode'')"
    by (simp add: wrapsNoPage_def)
  have 4: "wrapsNoPage (errorResourceOptions (ErrorObject ''cannot encode''))
     = Inl (ErrorObject ''cannot encode'')"
    by (simp add: wrapsNoPage_def)
  note a = construction_failure_gives_error_page
    [of wrapsErrorPageOnly 1730000000123 string_of_int waveRequest "ErrorObject ''cannot encode''"
      "errorResourceOptions (ErrorObject ''cannot encode'')" _ "''cannot encode''"]
  note b = construction_failure_gives_error_page
    [of wrapsNoPage 1730000000456 string_of_int parabolaRequest "ErrorObject ''cannot encode''"
      _ "ErrorObject ''cannot encode''"]
  from a 1 2
  have 5: "graph_handler wrapsErrorPageOnly 1730000000123 string_of_int waveRequest
     = Inr \<lparr>content = [errorResourceOptions (ErrorObject ''cannot encode'')]\<rparr>"
    by blast
  from a have 6: "htmlString (resource_content (errorResourceOptions (ErrorObject ''cannot encode'')))
     = err_head @ ''cannot encode'' @ err_tail"
    by blast
  from b 3 4
  have 7: "graph_handler wrapsNoPage 1730000000456 string_of_int parabolaRequest
     = Inl (ErrorObject ''cannot encode'')"
    by blast
  from 1 2 5 6 3 4 7 show ?thesis by (intro conjI)
qed

theorem construction_failure_counterexample:
  "graph_handler wrapsNoPage 1730000000123 string_of_int waveRequest
     = Inl (ErrorObject ''cannot encode'')"
  by (simp add: graph_handler_def wrapsNoPage_def)

text \<open>
  C7, as amended. Every response the handler returns has exactly one content item: the
  resource that \<open>createUIResource\<close> made of the graph page or, after a failure there, of the
  error page. Both pages are handed over with the encoding \<open>blob\<close>. The URI of the graph
  page ends with the clock reading in decimal, so two calls at different clock readings
  use different URIs; the URI of the error page is the same for every failure. A call in
  which \<open>createUIResource\<close> throws on both pages returns nothing: it raises.
\<close>

theorem every_response_has_one_blob_resource:
  "(\<forall>response. graph_handler createUIResource now ns args = Inr response \<longrightarrow>
       (\<exists>res. content response = [res]
          \<and> (createUIResource (graphResourceOptions now (graphDocument ns args)) = Inr res
             \<or> (\<exists>error.
                   createUIResource (graphResourceOptions now (graphDocument ns args)) = Inl error
                   \<and> createUIResource (errorResourceOptions error) = Inr res))))
   \<and> (createUIResource (graphResourceOptions now (graphDocument ns args)) = Inr res \<longrightarrow>
        graph_handler createUIResource now ns args = Inr \<lparr>content = [res]\<rparr>)
   \<and> (createUIResource (graphResourceOptions now (graphDocument ns args)) = Inl error
        \<and> createUIResource (errorResourceOptions error) = Inr res \<longrightarrow>
        graph_handler createUIResource now ns args = Inr \<lparr>content = [res]\<rparr>)
   \<and> encoding (graphResourceOptions now html) = ''blob''
   \<and> encoding (errorResourceOptions error) = ''blob''
   \<and> uri (graphResourceOptions now html) = ''ui://desmos-graph/'' @ string_of_nat now
   \<and> (now \<noteq> now' \<longrightarrow> uri (graphResourceOptions now html) \<noteq> uri (graphResourceOptions now' html'))
   \<and> uri (errorResourceOptions error) = uri (errorResourceOptions error')"
proof (intro conjI impI allI)
  fix response assume "graph_handler createUIResource now ns args = Inr response"
  then show "\<exists>res. content response = [res]
          \<and> (createUIResource (graphResourceOptions now (graphDocument ns args)) = Inr res
             \<or> (\<exists>error.
                   createUIResource (graphResourceOptions now (graphDocument ns args)) = Inl error
                   \<and> createUIResource (errorResourceOptions error) = Inr res))"
    by (rule graph_handler_returns)
next
  assume "now \<noteq> now'"
  then show "uri (graphResourceOptions now html) \<noteq> uri (graphResourceOptions now' html')"
    using uri_graphResourceOptions_inj [of now html now' html'] by blast
qed (simp_all add: graph_handler_wrapped graph_handler_recovered graphResourceOptions_def
    errorResourceOptions_def)

theorem every_response_has_one_blob_resource_witness:
  "graph_handler wrapsEveryPage 1730000000123 string_of_int waveRequest
     = Inr \<lparr>content = [graphResourceOptions 1730000000123 (graphDocument string_of_int waveRequest)]\<rparr>
   \<and> graph_handler wrapsErrorPageOnly 1730000000123 string_of_int waveRequest
     = Inr \<lparr>content = [errorResourceOptions (ErrorObject ''cannot encode'')]\<rparr>
   \<and> (1730000000123 :: nat) \<noteq> 1730000000456
   \<and> uri (graphResourceOptions 1730000000123 (graphDocument string_of_int waveRequest))
       \<noteq> uri (graphResourceOptions 1730000000456 (graphDocument string_of_int waveRequest))"
proof -
  have d: "string_of_nat 1730000000123 = ''1730000000123''"
    by (simp add: string_of_nat.simps digit_char_def)
  have 1: "wrapsEveryPage (graphResourceOptions 1730000000123 (graphDocument string_of_int waveRequest))
     = Inr (graphResourceOptions 1730000000123 (graphDocument string_of_int waveRequest))"
    by (simp add: wrapsEveryPage_def)
  have 2: "wrapsErrorPageOnly (graphResourceOptions 1730000000123 (graphDocument string_of_int waveRequest))
     = Inl (ErrorObject ''cannot encode'')"
    by (simp add: wrapsErrorPageOnly_def graphResourceOptions_def d)
  have 3: "wrapsErrorPageOnly (errorResourceOptions (ErrorObject ''cannot encode''))
     = Inr (errorResourceOptions (ErrorObject ''cannot encode''))"
    by (simp add: wrapsErrorPageOnly_def errorResourceOptions_def)
  have 4: "(1730000000123 :: nat) \<noteq> 1730000000456" by simp
  note a = every_response_has_one_blob_resource
    [of wrapsEveryPage 1730000000123 string_of_int waveRequest
      "graphResourceOptions 1730000000123 (graphDocument string_of_int waveRequest)" _
      "graphDocument string_of_int waveRequest" 1730000000456
      "graphDocument string_of_int waveRequest"]
  note b = every_response_has_one_blob_resource
    [of wrapsErrorPageOnly 1730000000123 string_of_int waveRequest
      "errorResourceOptions (ErrorObject ''cannot encode'')" "ErrorObject ''cannot encode''"]
  from a 1 have 5: "graph_handler wrapsEveryPage 1730000000123 string_of_int waveRequest
     = Inr \<lparr>content = [graphResourceOptions 1730000000123 (graphDocument string_of_int waveRequest)]\<rparr>"
    by blast
  from b 2 3 have 6: "graph_handler wrapsErrorPageOnly 1730000000123 string_of_int waveRequest
     = Inr \<lparr>content = [errorResourceOptions (ErrorObject ''cannot encode'')]\<rparr>"
    by blast
  from a 4 have 7: "uri (graphResourceOptions 1730000000123 (graphDocument string_of_int waveRequest))
       \<noteq> uri (graphResourceOptions 1730000000456 (graphDocument string_of_int waveRequest))"
    by blast
  from 5 6 4 7 show ?thesis by (intro conjI)
qed

theorem every_response_counterexample:
  "graph_handler rejectsEveryPage 1730000000456 string_of_int parabolaRequest = Inl OtherValue"
  by (simp add: graph_handler_def rejectsEveryPage_def)

end
